theory Spec2Isabelle
  imports Complex_Main "HOL-Library.AList" "HOL-Library.Char_ord" "HOL-Library.List_Lexorder"
begin

section \<open>Values and library functions the webhook relies on\<close>

text \<open>
  The policy table of \<^verbatim>\<open>webhook.go\<close> has the Go type
  \<^verbatim>\<open>[]map[string]interface{}\<close>: it is filled by \<^verbatim>\<open>json.Unmarshal\<close>, so an
  \<^verbatim>\<open>interface{}\<close> holds nil, a bool, a float64, a string, a slice or a map with string keys.
  A Go map holds one value per key. It is written here as an association list that is read
  through \<open>map_of\<close>; a \<^verbatim>\<open>range\<close> loop visits every key once (\<open>AList.clearjunk\<close>), in
  list order (Go leaves the order open).
\<close>

datatype iface =
    NilValue
  | Bool bool
  | Float64 real
  | String string
  | Slice "iface list"
  | Map "(string \<times> iface) list"

type_synonym gomap = "(string \<times> iface) list"

text \<open>A \<^verbatim>\<open>map[string]string\<close> value is a reference that may be nil (\<open>None\<close>).\<close>

type_synonym annotations = "(string \<rightharpoonup> string) option"

text \<open>
  Run-time panics of the Go code: a field read through a nil pointer, a write into a nil map,
  and a failed single-value type assertion \<^verbatim>\<open>x.(T)\<close>.
\<close>

datatype panic = NilPointerDereference | NilMapAssignment | InterfaceConversion

text \<open>
  The single-value type assertions \<^verbatim>\<open>x.(string)\<close> and
  \<^verbatim>\<open>x.(map[string]interface{})\<close>, and the index expression \<^verbatim>\<open>m[key]\<close> of a
  \<^verbatim>\<open>map[string]interface{}\<close>, which gives nil for a key the map lacks.
\<close>

definition assertString :: "iface \<Rightarrow> panic + string" where
  "assertString x = (case x of String s \<Rightarrow> Inr s | _ \<Rightarrow> Inl InterfaceConversion)"

definition assertMap :: "iface \<Rightarrow> panic + (string \<times> iface) list" where
  "assertMap x = (case x of Map m \<Rightarrow> Inr m | _ \<Rightarrow> Inl InterfaceConversion)"

definition index :: "(string \<times> iface) list \<Rightarrow> string \<Rightarrow> iface" where
  "index m key = (case map_of m key of None \<Rightarrow> NilValue | Some v \<Rightarrow> v)"

text \<open>
  \<^verbatim>\<open>strings.ToLower\<close>. On a string of ASCII bytes (the empty string is one) Go maps the
  letters A to Z to a to z and keeps every other byte. On any other string Go folds the
  Unicode letters and repairs invalid UTF-8; that part of the library is the parameter
  \<open>lower\<close>, about which nothing is assumed. Every function below that calls
  \<^verbatim>\<open>strings.ToLower\<close>, itself or through a function it calls, takes \<open>lower\<close> as its
  first argument.
\<close>

definition isASCII :: "char \<Rightarrow> bool" where
  "isASCII c = (\<not> digit7 c)"

definition lowerByte :: "char \<Rightarrow> char" where
  "lowerByte c =
     (case map_of (zip ''ABCDEFGHIJKLMNOPQRSTUVWXYZ'' ''abcdefghijklmnopqrstuvwxyz'') c of
        None \<Rightarrow> c
      | Some l \<Rightarrow> l)"

definition ToLower :: "(string \<Rightarrow> string) \<Rightarrow> string \<Rightarrow> string" where
  "ToLower lower s = (if list_all isASCII s then map lowerByte s else lower s)"

text \<open>\<^verbatim>\<open>strings.Compare\<close>: the three-way lexicographic comparison.\<close>

definition Compare :: "string \<Rightarrow> string \<Rightarrow> int" where
  "Compare a b = (if a = b then 0 else if a < b then - 1 else 1)"

section \<open>Data of webhook.go\<close>

definition ignoredNamespaces :: "string list" where
  "ignoredNamespaces = [''kube-system'', ''kube-public'']"

definition admissionWebhookAnnotationValidateKey :: string where
  "admissionWebhookAnnotationValidateKey = ''admission-webhook-example.citrix.com/validate''"

definition admissionWebhookAnnotationMutateKey :: string where
  "admissionWebhookAnnotationMutateKey = ''admission-webhook-example.citrix.com/mutate''"

definition admissionWebhookAnnotationStatusKey :: string where
  "admissionWebhookAnnotationStatusKey = ''admission-webhook-example.citrix.com/status''"

text \<open>
  \<^verbatim>\<open>metav1.ObjectMeta\<close>, with the fields the webhook reads and two of the fields it never
  reads.
\<close>

record ObjectMeta =
  Name :: string
  GenerateName :: string
  Namespace :: string
  Labels :: annotations
  Annotations :: annotations

record WebhookServer =
  defaultAnnotations :: "gomap list"

text \<open>
  \<^verbatim>\<open>patchOperation\<close>. \<open>Value\<close> is the annotation map the operation refers to, as it is when
  the patch is marshalled.
\<close>

record patchOperation =
  Op :: string
  Path :: string
  Value :: annotations

record AdmissionRequest =
  UID :: string
  Kind :: string
  ReqNamespace :: string
  ReqName :: string
  Operation :: string
  ObjectRaw :: string

record AdmissionReview =
  Request :: "AdmissionRequest option"

text \<open>
  \<^verbatim>\<open>v1beta1.AdmissionResponse\<close>: \<open>Result\<close> is the message of the status, when there is
  one; \<open>Patch\<close> is the marshalled patch, kept as the document that was marshalled.
\<close>

record AdmissionResponse =
  RespUID :: string
  Allowed :: bool
  Result :: "string option"
  Patch :: "patchOperation list option"
  PatchType :: "string option"

section \<open>The decision: admissionRequired and mutationRequired\<close>

text \<open>
  \<^verbatim>\<open>admissionRequired\<close> (lines 67 to 76). \<open>metadata\<close> is a pointer: reading
  \<^verbatim>\<open>metadata.Namespace\<close> through nil panics, which happens in the first round of the loop.
\<close>

fun admissionRequired :: "string list \<Rightarrow> string \<Rightarrow> ObjectMeta option \<Rightarrow> panic + bool" where
  "admissionRequired [] admissionAnnotationKey metadata = Inr True"
| "admissionRequired (namespace # ignoredList) admissionAnnotationKey metadata =
     (case metadata of
        None \<Rightarrow> Inl NilPointerDereference
      | Some m \<Rightarrow>
          if Namespace m = namespace then Inr False
          else admissionRequired ignoredList admissionAnnotationKey metadata)"

text \<open>
  The loop of lines 86 to 96: \<open>Inr\<close> of the final \<^verbatim>\<open>ingressFound\<close>. An entry without the
  key \<^verbatim>\<open>ingressName\<close> is skipped; \<^verbatim>\<open>ingressName.(string)\<close> panics on a value that is not
  a string.
\<close>

fun ingressFound :: "(string \<Rightarrow> string) \<Rightarrow> gomap list \<Rightarrow> string \<Rightarrow> panic + bool" where
  "ingressFound lower [] name = Inr False"
| "ingressFound lower (dflt # rest) name =
     (case map_of dflt ''ingressName'' of
        None \<Rightarrow> ingressFound lower rest name
      | Some ingressName \<Rightarrow>
          (case assertString ingressName of
             Inl p \<Rightarrow> Inl p
           | Inr s \<Rightarrow>
               if Compare (ToLower lower s) (ToLower lower name) = 0 then Inr True
               else ingressFound lower rest name))"

text \<open>
  \<^verbatim>\<open>mutationRequired\<close> (lines 78 to 108). \<^verbatim>\<open>metadata.GetAnnotations()\<close> reads a field of
  its receiver, so it panics on nil; a nil annotation map is replaced by an empty one for this
  function only; reading a key the map lacks gives the empty string.
\<close>

definition mutationRequired ::
  "(string \<Rightarrow> string) \<Rightarrow> string list \<Rightarrow> gomap list \<Rightarrow> ObjectMeta option \<Rightarrow> panic + bool" where
  "mutationRequired lower ignoredList dflts metadata =
     (case admissionRequired ignoredList admissionWebhookAnnotationMutateKey metadata of
        Inl p \<Rightarrow> Inl p
      | Inr required \<Rightarrow>
          (case metadata of
             None \<Rightarrow> Inl NilPointerDereference
           | Some m \<Rightarrow>
               let annotations = (case Annotations m of None \<Rightarrow> Map.empty | Some a \<Rightarrow> a);
                   name = Name m
               in (case ingressFound lower dflts name of
                     Inl p \<Rightarrow> Inl p
                   | Inr found \<Rightarrow>
                       let required1 = (required \<and> found);
                           status = (case annotations admissionWebhookAnnotationStatusKey of
                                       None \<Rightarrow> [] | Some s \<Rightarrow> s)
                       in Inr (if ToLower lower status = ''mutated'' then False
                               else required1))))"

section \<open>The patch: updateAnnotation and createPatch\<close>

text \<open>
  The loop of \<^verbatim>\<open>updateAnnotation\<close> (lines 118 to 120) over the entries of the default map.
  \<^verbatim>\<open>val.(string)\<close> is evaluated first and panics on a value that is not a string; the
  assignment then panics when \<^verbatim>\<open>annotations\<close> is nil. The writes land in the caller's
  map, so the loop returns the map as it leaves it.
\<close>

fun writeDefaults :: "gomap \<Rightarrow> annotations \<Rightarrow> panic + annotations" where
  "writeDefaults [] annotations = Inr annotations"
| "writeDefaults ((ann, val) # rest) annotations =
     (case assertString val of
        Inl p \<Rightarrow> Inl p
      | Inr s \<Rightarrow>
          (case annotations of
             None \<Rightarrow> Inl NilMapAssignment
           | Some a \<Rightarrow> writeDefaults rest (Some (a(ann \<mapsto> s)))))"

text \<open>
  \<^verbatim>\<open>updateAnnotation\<close> (lines 116 to 128) returns the patch, and, as second component, the
  caller's annotation map as the call leaves it (Go maps are references; \<open>Value\<close> of the
  operation is that same map).
\<close>

definition updateAnnotation :: "annotations \<Rightarrow> gomap \<Rightarrow> panic + (patchOperation list \<times> annotations)" where
  "updateAnnotation annotations dflt =
     (case writeDefaults (AList.clearjunk dflt) annotations of
        Inl p \<Rightarrow> Inl p
      | Inr a \<Rightarrow>
          Inr ([] @ [\<lparr>Op = ''add'', Path = ''/metadata/annotations'', Value = a\<rparr>], a))"

text \<open>
  The loop of \<^verbatim>\<open>createPatch\<close> (lines 134 to 144): the default map of the first entry whose
  \<^verbatim>\<open>ingressName\<close> equals the name case-insensitively, the empty map when there is none. The
  two type assertions panic on a name that is not a string and on a
  \<^verbatim>\<open>defaultAnnotations\<close> value that is missing (nil) or not a map.
\<close>

fun defaultAnnotationsForIngressName ::
  "(string \<Rightarrow> string) \<Rightarrow> gomap list \<Rightarrow> string \<Rightarrow> panic + gomap" where
  "defaultAnnotationsForIngressName lower [] ingressName = Inr []"
| "defaultAnnotationsForIngressName lower (dflt # rest) ingressName =
     (case map_of dflt ''ingressName'' of
        None \<Rightarrow> defaultAnnotationsForIngressName lower rest ingressName
      | Some name \<Rightarrow>
          (case assertString (index dflt ''ingressName'') of
             Inl p \<Rightarrow> Inl p
           | Inr s \<Rightarrow>
               if Compare (ToLower lower s) (ToLower lower ingressName) = 0 then
                 assertMap (index dflt ''defaultAnnotations'')
               else defaultAnnotationsForIngressName lower rest ingressName))"

text \<open>
  \<^verbatim>\<open>json.Marshal\<close> on a patch: the result is kept as the document itself, \<open>Inl\<close> would be
  the error. Marshalling a list of \<^verbatim>\<open>patchOperation\<close> whose values are string maps returns
  no error.
\<close>

definition jsonMarshal :: "patchOperation list \<Rightarrow> string + patchOperation list" where
  "jsonMarshal patch = Inr patch"

text \<open>
  \<^verbatim>\<open>createPatch\<close> (lines 130 to 147): the pair \<^verbatim>\<open>([]byte, error)\<close> as a sum, and the
  caller's annotation map as the call leaves it.
\<close>

definition createPatch ::
  "(string \<Rightarrow> string) \<Rightarrow> string \<Rightarrow> annotations \<Rightarrow> gomap list \<Rightarrow>
   panic + ((string + patchOperation list) \<times> annotations)" where
  "createPatch lower ingressName availableAnnotations allDefaultAnnotations =
     (case defaultAnnotationsForIngressName lower allDefaultAnnotations ingressName of
        Inl p \<Rightarrow> Inl p
      | Inr d \<Rightarrow>
          (case updateAnnotation availableAnnotations d of
             Inl p \<Rightarrow> Inl p
           | Inr (ops, a) \<Rightarrow> Inr (jsonMarshal ([] @ ops), a)))"

section \<open>The entry points: mutate and serve\<close>

text \<open>
  \<^verbatim>\<open>mutate\<close> (lines 150 to 199). \<open>unmarshal\<close> stands for \<^verbatim>\<open>json.Unmarshal\<close> of the raw
  object into an Ingress, of which the function uses the object metadata only: \<open>Inl\<close> is the
  error message. \<^verbatim>\<open>req\<close> is read in the first log call, so a review without a request
  panics. For a kind other than \<^verbatim>\<open>Ingress\<close> the switch does nothing and \<^verbatim>\<open>objectMeta\<close>
  stays nil.
\<close>

definition mutate ::
  "(string \<Rightarrow> string) \<Rightarrow> (string \<Rightarrow> string + ObjectMeta) \<Rightarrow> WebhookServer \<Rightarrow>
   AdmissionReview \<Rightarrow> panic + AdmissionResponse" where
  "mutate lower unmarshal whsvr ar =
     (case Request ar of
        None \<Rightarrow> Inl NilPointerDereference
      | Some req \<Rightarrow>
          (case (if Kind req = ''Ingress'' then
                   (case unmarshal (ObjectRaw req) of
                      Inl err \<Rightarrow> Inl err
                    | Inr ingress \<Rightarrow> Inr (Name ingress, Namespace ingress, Some ingress))
                 else Inr ([], [], None)) of
             Inl err \<Rightarrow>
               Inr \<lparr>RespUID = [], Allowed = False, Result = Some err, Patch = None,
                    PatchType = None\<rparr>
           | Inr (resourceName, resourceNamespace, objectMeta) \<Rightarrow>
               (case mutationRequired lower ignoredNamespaces (defaultAnnotations whsvr)
                       objectMeta of
                  Inl p \<Rightarrow> Inl p
                | Inr required \<Rightarrow>
                    if \<not> required then
                      Inr \<lparr>RespUID = [], Allowed = True, Result = None, Patch = None,
                           PatchType = None\<rparr>
                    else
                      (case objectMeta of
                         None \<Rightarrow> Inl NilPointerDereference
                       | Some m \<Rightarrow>
                           (case createPatch lower resourceName (Annotations m)
                                   (defaultAnnotations whsvr) of
                              Inl p \<Rightarrow> Inl p
                            | Inr (Inl err, a) \<Rightarrow>
                                Inr \<lparr>RespUID = [], Allowed = False, Result = Some err,
                                     Patch = None, PatchType = None\<rparr>
                            | Inr (Inr patchBytes, a) \<Rightarrow>
                                Inr \<lparr>RespUID = [], Allowed = True, Result = None,
                                     Patch = Some patchBytes,
                                     PatchType = Some ''JSONPatch''\<rparr>)))))"




section \<open>Loading the policy table\<close>

text \<open>
  What \<^verbatim>\<open>json.Unmarshal\<close> does with the bytes of the policy document and the table it is
  given: it finds that the bytes are not JSON and stores nothing (a \<^verbatim>\<open>SyntaxError\<close>); or
  the bytes are JSON that does not fit \<^verbatim>\<open>[]map[string]interface{}\<close>, and it stores what
  fits, a nil map in the place of an element that does not, and returns an
  \<^verbatim>\<open>UnmarshalTypeError\<close>; or it stores the whole table and returns no error.
\<close>

datatype unmarshalOutcome =
    SyntaxError string
  | TypeError string "gomap list"
  | Decoded "gomap list"

text \<open>
  \<^verbatim>\<open>ioutil.ReadAll(jsonFile)\<close>. \<open>jsonFile\<close> is what \<^verbatim>\<open>os.Open\<close> returned: \<open>None\<close> is the
  nil file of a failed open, on which every read fails at once with the error of an invalid
  file; an open file is given by what reading it to its end returns, the bytes read and the
  error that stopped the reading, if any.
\<close>

definition ioutilReadAll :: "(string \<times> string option) option \<Rightarrow> string \<times> string option" where
  "ioutilReadAll jsonFile =
     (case jsonFile of
        None \<Rightarrow> ([], Some ''invalid argument'')
      | Some result \<Rightarrow> result)"

text \<open>
  \<^verbatim>\<open>json.Unmarshal(byteValue, &defaultAnnotations)\<close>, the one call of the program. No bytes
  at all are not JSON; when there are bytes, \<open>outcome\<close> is what the decoder makes of them.
\<close>

definition jsonUnmarshal :: "unmarshalOutcome \<Rightarrow> string \<Rightarrow> unmarshalOutcome" where
  "jsonUnmarshal outcome data =
     (if data = [] then SyntaxError ''unexpected end of JSON input'' else outcome)"

text \<open>
  Lines 33 to 40 of \<^verbatim>\<open>main\<close>: the table \<^verbatim>\<open>defaultAnnotations\<close> starts as the nil slice;
  the error of \<^verbatim>\<open>os.Open\<close> is logged, the errors of \<^verbatim>\<open>ioutil.ReadAll\<close> and of
  \<^verbatim>\<open>json.Unmarshal\<close> are discarded, and the program goes on with whatever the table holds.
\<close>

definition loadDefaultAnnotations ::
  "unmarshalOutcome \<Rightarrow> (string \<times> string option) option \<Rightarrow> gomap list" where
  "loadDefaultAnnotations outcome jsonFile =
     (let byteValue = fst (ioutilReadAll jsonFile) in
      case jsonUnmarshal outcome byteValue of
        SyntaxError e \<Rightarrow> []
      | TypeError e stored \<Rightarrow> stored
      | Decoded stored \<Rightarrow> stored)"

section \<open>Vocabulary of the properties\<close>

text \<open>An entry whose \<^verbatim>\<open>ingressName\<close>, when it has one, is a string.\<close>

definition isString :: "iface \<Rightarrow> bool" where
  "isString x = (case x of String s \<Rightarrow> True | _ \<Rightarrow> False)"

definition nameTyped :: "gomap \<Rightarrow> bool" where
  "nameTyped dflt = (case map_of dflt ''ingressName'' of None \<Rightarrow> True | Some v \<Rightarrow> isString v)"

definition namesTyped :: "gomap list \<Rightarrow> bool" where
  "namesTyped tbl = list_all nameTyped tbl"

text \<open>An entry whose \<^verbatim>\<open>ingressName\<close> is a string equal to the name, case-insensitively.\<close>

definition matchesName :: "(string \<Rightarrow> string) \<Rightarrow> string \<Rightarrow> gomap \<Rightarrow> bool" where
  "matchesName lower name dflt =
     (case map_of dflt ''ingressName'' of
        None \<Rightarrow> False
      | Some v \<Rightarrow>
          (case v of String s \<Rightarrow> ToLower lower s = ToLower lower name | _ \<Rightarrow> False))"

text \<open>
  An entry that decides a lookup: its \<^verbatim>\<open>ingressName\<close> is not a string, or it matches the
  name.
\<close>

definition decisive :: "(string \<Rightarrow> string) \<Rightarrow> string \<Rightarrow> gomap \<Rightarrow> bool" where
  "decisive lower name dflt = (\<not> nameTyped dflt \<or> matchesName lower name dflt)"

text \<open>The table cut down to the first entry that decides the lookup.\<close>

definition firstDecisive :: "(string \<Rightarrow> string) \<Rightarrow> gomap list \<Rightarrow> string \<Rightarrow> gomap list" where
  "firstDecisive lower tbl name =
     (case find (decisive lower name) tbl of None \<Rightarrow> [] | Some e \<Rightarrow> [e])"

text \<open>The annotations carry the status marker with the value \<^verbatim>\<open>mutated\<close>, in any case.\<close>

definition markedMutated :: "(string \<Rightarrow> string) \<Rightarrow> annotations \<Rightarrow> bool" where
  "markedMutated lower anns =
     (case anns of
        None \<Rightarrow> False
      | Some a \<Rightarrow>
          (case a admissionWebhookAnnotationStatusKey of
             None \<Rightarrow> False
           | Some s \<Rightarrow> ToLower lower s = ''mutated''))"

text \<open>A default map whose values are all strings.\<close>

definition valuesTyped :: "gomap \<Rightarrow> bool" where
  "valuesTyped d = list_all (\<lambda>(k, v). isString v) d"

text \<open>
  The annotation map \<open>a\<close> with every key of the default map \<open>d\<close> set to the string the
  policy gives it, and every other key as it was.
\<close>

definition merged :: "(string \<rightharpoonup> string) \<Rightarrow> gomap \<Rightarrow> (string \<rightharpoonup> string)" where
  "merged a d =
     (\<lambda>k. case map_of d k of
            None \<Rightarrow> a k
          | Some v \<Rightarrow> (case v of String s \<Rightarrow> Some s | _ \<Rightarrow> a k))"

section \<open>Example inputs\<close>

text \<open>
  The policy table of the deployment's configuration: one entry, for the Ingress
  \<^verbatim>\<open>test-ingress\<close>, with the two port annotations.
\<close>

definition examplePolicy :: "gomap list" where
  "examplePolicy =
     [[(''ingressName'', String ''test-ingress''),
       (''defaultAnnotations'',
          Map [(''ingress.citrix.com/secure-port'', String ''4443''),
               (''ingress.citrix.com/insecure-port'', String ''81'')])]]"

text \<open>Object metadata with the given name, namespace and annotations.\<close>

definition exampleMeta :: "string \<Rightarrow> string \<Rightarrow> annotations \<Rightarrow> ObjectMeta" where
  "exampleMeta name namespace anns =
     \<lparr>Name = name, GenerateName = [], Namespace = namespace, Labels = None,
      Annotations = anns\<rparr>"

text \<open>
  Policy tables that \<^verbatim>\<open>json.Unmarshal\<close> stores without complaint: an entry with no
  \<^verbatim>\<open>defaultAnnotations\<close>, one whose \<^verbatim>\<open>defaultAnnotations\<close> is a string, and one with a
  number as a default value.
\<close>

definition policyWithoutDefaults :: "gomap list" where
  "policyWithoutDefaults = [[(''ingressName'', String ''test-ingress'')]]"

definition policyDefaultsNotMap :: "gomap list" where
  "policyDefaultsNotMap =
     [[(''ingressName'', String ''test-ingress''), (''defaultAnnotations'', String ''81'')]]"

definition policyValueNotString :: "gomap list" where
  "policyValueNotString =
     [[(''ingressName'', String ''test-ingress''),
       (''defaultAnnotations'', Map [(''ingress.citrix.com/insecure-port'', Float64 81)])]]"

text \<open>A policy whose defaults set the status marker.\<close>

definition policyWithStatus :: "gomap list" where
  "policyWithStatus =
     [[(''ingressName'', String ''test-ingress''),
       (''defaultAnnotations'',
          Map [(''admission-webhook-example.citrix.com/status'', String ''Mutated'')])]]"

text \<open>
  A policy with an entry that has no \<^verbatim>\<open>ingressName\<close> and two entries whose names match
  \<^verbatim>\<open>test-ingress\<close>.
\<close>

definition policyTwoMatches :: "gomap list" where
  "policyTwoMatches =
     [[(''defaultAnnotations'', Map [(''ingress.citrix.com/insecure-port'', String ''80'')])],
      [(''ingressName'', String ''Test-Ingress''),
       (''defaultAnnotations'', Map [(''ingress.citrix.com/insecure-port'', String ''81'')])],
      [(''ingressName'', String ''test-ingress''),
       (''defaultAnnotations'', Map [(''ingress.citrix.com/insecure-port'', String ''82'')])]]"

text \<open>
  A policy table with an entry whose \<^verbatim>\<open>ingressName\<close> is a number, before the entry of the
  example policy, and the same two entries in the other order.
\<close>

definition policyNumberFirst :: "gomap list" where
  "policyNumberFirst = [(''ingressName'', Float64 5)] # examplePolicy"

definition policyNumberLast :: "gomap list" where
  "policyNumberLast = examplePolicy @ [[(''ingressName'', Float64 5)]]"

text \<open>
  A policy document that is JSON of the wrong shape, a number where the second entry should
  be, and what \<^verbatim>\<open>json.Unmarshal\<close> makes of it: the error for the number, with the first
  entry stored and a nil map in the place of the number.
\<close>

definition wrongShapeDocument :: string where
  "wrongShapeDocument =
     ''[{\"ingressName\": \"test-ingress\", \"defaultAnnotations\": {\"ingress.citrix.com/secure-port\": \"4443\", \"ingress.citrix.com/insecure-port\": \"81\"}}, 7]''"

definition wrongShapeOutcome :: unmarshalOutcome where
  "wrongShapeOutcome =
     TypeError ''json: cannot unmarshal number into Go value of type map[string]interface {}''
       (examplePolicy @ [[]])"






text \<open>
  The default map of the example policy, and annotations a submitter set: one key that the
  policy also sets, one that it does not.
\<close>

definition exampleDefaults :: gomap where
  "exampleDefaults =
     [(''ingress.citrix.com/secure-port'', String ''4443''),
      (''ingress.citrix.com/insecure-port'', String ''81'')]"

definition submittedAnnotations :: "string \<rightharpoonup> string" where
  "submittedAnnotations =
     [''ingress.citrix.com/secure-port'' \<mapsto> ''443'', ''kubernetes.io/ingress.class'' \<mapsto> ''class1'']"

text \<open>Annotations that carry the status marker, in mixed case.\<close>

definition markedAnnotations :: annotations where
  "markedAnnotations = Some [''admission-webhook-example.citrix.com/status'' \<mapsto> ''Mutated'']"

section \<open>Lemmas on the two lookups\<close>

lemma Compare_eq_0: "Compare a b = 0 \<longleftrightarrow> a = b"
  by (simp add: Compare_def)

lemma ToLower_empty: "ToLower lower [] = []"
  by (simp add: ToLower_def)

lemma ToLower_not_mutated: "ToLower lower [] \<noteq> ''mutated''"
  by (simp add: ToLower_def)

lemma isString_iff: "isString v \<longleftrightarrow> (\<exists>s. v = String s)"
  by (cases v) (simp_all add: isString_def)

lemma assertString_String [simp]: "assertString (String s) = Inr s"
  by (simp add: assertString_def)

lemma assertString_not: "\<not> isString v \<Longrightarrow> assertString v = Inl InterfaceConversion"
  by (cases v) (simp_all add: assertString_def isString_def)

lemma admissionRequired_Some:
  "admissionRequired ign key (Some m) = Inr (Namespace m \<notin> set ign)"
  by (induction ign) auto

lemma matches_typed: "matchesName lower name e \<Longrightarrow> nameTyped e"
  by (auto simp: matchesName_def nameTyped_def isString_def split: option.splits iface.splits)

lemma ingressFound_absent:
  "map_of e ''ingressName'' = None \<Longrightarrow>
   ingressFound lower (e # rest) name = ingressFound lower rest name"
  by simp

lemma ingressFound_match:
  "matchesName lower name e \<Longrightarrow> ingressFound lower (e # rest) name = Inr True"
  by (auto simp: matchesName_def Compare_eq_0 isString_iff split: option.splits iface.splits)

lemma ingressFound_nomatch:
  "nameTyped e \<Longrightarrow> \<not> matchesName lower name e \<Longrightarrow>
   ingressFound lower (e # rest) name = ingressFound lower rest name"
  by (auto simp: matchesName_def nameTyped_def Compare_eq_0 isString_iff split: option.splits)

lemma ingressFound_illtyped:
  "\<not> nameTyped e \<Longrightarrow> ingressFound lower (e # rest) name = Inl InterfaceConversion"
  by (auto simp: nameTyped_def assertString_not split: option.splits)

lemma defaults_absent:
  "map_of e ''ingressName'' = None \<Longrightarrow>
   defaultAnnotationsForIngressName lower (e # rest) name =
   defaultAnnotationsForIngressName lower rest name"
  by simp

lemma defaults_match:
  "matchesName lower name e \<Longrightarrow>
   defaultAnnotationsForIngressName lower (e # rest) name =
   assertMap (index e ''defaultAnnotations'')"
  by (auto simp: matchesName_def Compare_eq_0 isString_iff index_def
      split: option.splits iface.splits)

lemma defaults_nomatch:
  "nameTyped e \<Longrightarrow> \<not> matchesName lower name e \<Longrightarrow>
   defaultAnnotationsForIngressName lower (e # rest) name =
   defaultAnnotationsForIngressName lower rest name"
  by (auto simp: matchesName_def nameTyped_def Compare_eq_0 isString_iff index_def
      split: option.splits)

lemma defaults_illtyped:
  "\<not> nameTyped e \<Longrightarrow>
   defaultAnnotationsForIngressName lower (e # rest) name = Inl InterfaceConversion"
  by (auto simp: nameTyped_def assertString_not index_def split: option.splits)

declare ingressFound.simps(2) [simp del] defaultAnnotationsForIngressName.simps(2) [simp del]

text \<open>Both lookups are decided by the first entry that matches or has a name that is no string.\<close>

lemma ingressFound_find:
  "ingressFound lower tbl name =
     (case find (decisive lower name) tbl of
        None \<Rightarrow> Inr False
      | Some e \<Rightarrow> if nameTyped e then Inr True else Inl InterfaceConversion)"
proof (induction tbl)
  case Nil
  show ?case by simp
next
  case (Cons e tbl)
  show ?case
  proof (cases "nameTyped e")
    case False
    then show ?thesis by (simp add: ingressFound_illtyped decisive_def)
  next
    case True
    show ?thesis
    proof (cases "matchesName lower name e")
      case True
      then show ?thesis using \<open>nameTyped e\<close> by (simp add: ingressFound_match decisive_def)
    next
      case False
      then show ?thesis using \<open>nameTyped e\<close> Cons
        by (simp add: ingressFound_nomatch decisive_def)
    qed
  qed
qed

lemma defaults_find:
  "defaultAnnotationsForIngressName lower tbl name =
     (case find (decisive lower name) tbl of
        None \<Rightarrow> Inr []
      | Some e \<Rightarrow>
          if nameTyped e then assertMap (index e ''defaultAnnotations'')
          else Inl InterfaceConversion)"
proof (induction tbl)
  case Nil
  show ?case by simp
next
  case (Cons e tbl)
  show ?case
  proof (cases "nameTyped e")
    case False
    then show ?thesis by (simp add: defaults_illtyped decisive_def)
  next
    case True
    show ?thesis
    proof (cases "matchesName lower name e")
      case True
      then show ?thesis using \<open>nameTyped e\<close> by (simp add: defaults_match decisive_def)
    next
      case False
      then show ?thesis using \<open>nameTyped e\<close> Cons
        by (simp add: defaults_nomatch decisive_def)
    qed
  qed
qed

lemma find_decisive_typed:
  "namesTyped tbl \<Longrightarrow> find (decisive lower name) tbl = find (matchesName lower name) tbl"
  by (induction tbl) (simp_all add: namesTyped_def decisive_def)

lemma find_decisive_Some:
  "find (decisive lower name) tbl = Some e \<Longrightarrow>
   e \<in> set tbl \<and> (nameTyped e \<longrightarrow> matchesName lower name e)"
  by (auto simp: find_Some_iff decisive_def)

lemma find_matches: "find (matchesName lower n) tbl = Some e \<Longrightarrow> matchesName lower n e"
  by (auto simp: find_Some_iff)

lemma ingressFound_skip:
  "map_of e ''ingressName'' = None \<Longrightarrow>
   ingressFound lower (pre @ e # post) name = ingressFound lower (pre @ post) name"
proof (induction pre)
  case Nil
  then show ?case by (simp add: ingressFound_absent)
next
  case (Cons x pre)
  then have ih: "ingressFound lower (pre @ e # post) name = ingressFound lower (pre @ post) name"
    by simp
  show ?case
    by (simp add: ingressFound.simps(2) ih cong: option.case_cong sum.case_cong if_cong)
qed

lemma defaults_skip:
  "map_of e ''ingressName'' = None \<Longrightarrow>
   defaultAnnotationsForIngressName lower (pre @ e # post) name =
   defaultAnnotationsForIngressName lower (pre @ post) name"
proof (induction pre)
  case Nil
  then show ?case by (simp add: defaults_absent)
next
  case (Cons x pre)
  then have ih: "defaultAnnotationsForIngressName lower (pre @ e # post) name =
                 defaultAnnotationsForIngressName lower (pre @ post) name"
    by simp
  show ?case
    by (simp add: defaultAnnotationsForIngressName.simps(2) ih
        cong: option.case_cong sum.case_cong if_cong)
qed

text \<open>The decision, for every table.\<close>

lemma mutationRequired_found:
  "mutationRequired lower ign tbl (Some m) =
     (case ingressFound lower tbl (Name m) of
        Inl p \<Rightarrow> Inl p
      | Inr found \<Rightarrow>
          Inr (Namespace m \<notin> set ign \<and> found \<and> \<not> markedMutated lower (Annotations m)))"
  by (auto simp add: mutationRequired_def admissionRequired_Some markedMutated_def Let_def
      ToLower_not_mutated split: option.splits sum.splits)

lemma mutationRequired_find:
  "mutationRequired lower ign tbl (Some m) =
     (case find (decisive lower (Name m)) tbl of
        None \<Rightarrow> Inr False
      | Some e \<Rightarrow>
          if nameTyped e then
            Inr (Namespace m \<notin> set ign \<and> \<not> markedMutated lower (Annotations m))
          else Inl InterfaceConversion)"
  by (simp add: mutationRequired_found ingressFound_find split: option.splits)

lemma mutationRequired_typed:
  "namesTyped tbl \<Longrightarrow>
   mutationRequired lower ign tbl (Some m) =
     Inr (Namespace m \<notin> set ign \<and> list_ex (matchesName lower (Name m)) tbl \<and>
          \<not> markedMutated lower (Annotations m))"
proof -
  assume t: "namesTyped tbl"
  have "find (matchesName lower (Name m)) tbl = None \<longleftrightarrow>
        \<not> list_ex (matchesName lower (Name m)) tbl"
    by (auto simp: find_None_iff list_ex_iff)
  then show ?thesis
    using find_matches [of lower "Name m" tbl]
    by (cases "find (matchesName lower (Name m)) tbl")
      (auto simp: mutationRequired_find find_decisive_typed [OF t] matches_typed)
qed


section \<open>Lemmas on the merge\<close>

lemma merged_Nil: "merged a [] = a"
  by (simp add: merged_def)

lemma merged_Cons:
  "map_of d k = None \<Longrightarrow> merged (a(k \<mapsto> s)) d = merged a ((k, String s) # d)"
  by (auto simp: merged_def fun_eq_iff split: option.splits iface.splits)

lemma writeDefaults_typed:
  "valuesTyped d \<Longrightarrow> distinct (map fst d) \<Longrightarrow> writeDefaults d (Some a) = Inr (Some (merged a d))"
proof (induction d arbitrary: a)
  case Nil
  then show ?case by (simp add: merged_Nil)
next
  case (Cons p d)
  obtain k v where p: "p = (k, v)" by (cases p)
  from Cons.prems p obtain s where v: "v = String s"
    by (auto simp: valuesTyped_def isString_iff)
  have vt: "valuesTyped d" and dd: "distinct (map fst d)" and kd: "k \<notin> fst ` set d"
    using Cons.prems p by (auto simp: valuesTyped_def)
  have none: "map_of d k = None"
    using kd by (simp add: map_of_eq_None_iff)
  have "writeDefaults (p # d) (Some a) = writeDefaults d (Some (a(k \<mapsto> s)))"
    using p v by simp
  also have "\<dots> = Inr (Some (merged (a(k \<mapsto> s)) d))"
    by (rule Cons.IH [OF vt dd])
  also have "merged (a(k \<mapsto> s)) d = merged a (p # d)"
    using merged_Cons [OF none] p v by simp
  finally show ?case .
qed

lemma set_clearjunk_subset: "set (AList.clearjunk d) \<subseteq> set d"
  by (induction d rule: AList.clearjunk.induct) (auto simp: AList.delete_eq)

lemma valuesTyped_clearjunk: "valuesTyped d \<Longrightarrow> valuesTyped (AList.clearjunk d)"
  using set_clearjunk_subset [of d] by (auto simp: valuesTyped_def list_all_iff)

lemma merged_clearjunk: "merged a (AList.clearjunk d) = merged a d"
  by (simp add: merged_def map_of_clearjunk)

lemma clearjunk_Nil_iff: "AList.clearjunk d = [] \<longleftrightarrow> d = []"
  by (cases d) auto

lemma writeDefaults_nil:
  "writeDefaults d None = (case d of [] \<Rightarrow> Inr None | (k, v) # rest \<Rightarrow>
      (if isString v then Inl NilMapAssignment else Inl InterfaceConversion))"
  by (cases d) (auto simp: isString_iff assertString_not split: sum.splits)

lemma writeDefaults_untyped:
  "\<not> valuesTyped d \<Longrightarrow> writeDefaults d (Some a) = Inl InterfaceConversion"
proof (induction d arbitrary: a)
  case Nil
  then show ?case by (simp add: valuesTyped_def)
next
  case (Cons p d)
  obtain k v where p: "p = (k, v)" by (cases p)
  show ?case
  proof (cases "isString v")
    case True
    then obtain s where v: "v = String s" by (auto simp: isString_iff)
    with Cons.prems p have "\<not> valuesTyped d" by (simp add: valuesTyped_def isString_def)
    then show ?thesis using Cons.IH p v by simp
  next
    case False
    then show ?thesis using p by (simp add: assertString_not)
  qed
qed

lemma valuesTyped_clearjunk_iff:
  "valuesTyped (AList.clearjunk d) \<longleftrightarrow> (\<forall>k v. map_of d k = Some v \<longrightarrow> isString v)"
proof -
  have "valuesTyped (AList.clearjunk d) \<longleftrightarrow> (\<forall>(k, v) \<in> set (AList.clearjunk d). isString v)"
    by (simp add: valuesTyped_def list_all_iff)
  also have "\<dots> \<longleftrightarrow> (\<forall>k v. map_of (AList.clearjunk d) k = Some v \<longrightarrow> isString v)"
    using distinct_clearjunk [of d] by (auto dest: map_of_SomeD)
  finally show ?thesis by (simp add: map_of_clearjunk)
qed

lemma merged_idem: "merged (merged a d) d = merged a d"
  by (auto simp: merged_def fun_eq_iff split: option.splits iface.splits)

text \<open>
  The loop of \<^verbatim>\<open>updateAnnotation\<close>, whenever it ends without a panic: on a nil map there
  was nothing to write; on a map \<open>x\<close> every value of the default map is a string and the map
  is left as the merge.
\<close>

lemma writeDefaults_returns:
  assumes "writeDefaults (AList.clearjunk d) a = Inr a'"
  shows "(a = None \<and> d = [] \<and> a' = None) \<or>
         (\<exists>x. a = Some x \<and> (\<forall>k v. map_of d k = Some v \<longrightarrow> isString v) \<and>
              a' = Some (merged x d))"
proof (cases a)
  case None
  with assms have "AList.clearjunk d = []" and "a' = None"
    by (auto simp: writeDefaults_nil split: list.splits if_splits)
  then show ?thesis using None by (simp add: clearjunk_Nil_iff)
next
  case (Some x)
  with assms have vt: "valuesTyped (AList.clearjunk d)"
    using writeDefaults_untyped [of "AList.clearjunk d" x] by auto
  with assms Some have "a' = Some (merged x d)"
    by (simp add: writeDefaults_typed distinct_clearjunk merged_clearjunk)
  then show ?thesis using Some vt by (simp add: valuesTyped_clearjunk_iff)
qed

lemma writeDefaults_idem:
  assumes "writeDefaults (AList.clearjunk d) a = Inr a'"
  shows "writeDefaults (AList.clearjunk d) a' = Inr a'"
proof -
  from writeDefaults_returns [OF assms] show ?thesis
  proof
    assume "a = None \<and> d = [] \<and> a' = None"
    then show ?thesis by simp
  next
    assume "\<exists>x. a = Some x \<and> (\<forall>k v. map_of d k = Some v \<longrightarrow> isString v) \<and>
              a' = Some (merged x d)"
    then obtain x where a': "a' = Some (merged x d)"
      and vt: "valuesTyped (AList.clearjunk d)"
      by (auto simp: valuesTyped_clearjunk_iff)
    have "writeDefaults (AList.clearjunk d) (Some (merged x d)) =
          Inr (Some (merged (merged x d) (AList.clearjunk d)))"
      by (rule writeDefaults_typed [OF vt distinct_clearjunk])
    then show ?thesis using a' by (simp add: merged_clearjunk merged_idem)
  qed
qed

lemma writeDefaults_nil_typed:
  "d \<noteq> [] \<Longrightarrow> valuesTyped d \<Longrightarrow> writeDefaults d None = Inl NilMapAssignment"
  by (cases d) (auto simp: valuesTyped_def isString_iff)

section \<open>Lemmas on createPatch\<close>

lemma createPatch_unfold:
  "createPatch lower n a tbl =
     (case defaultAnnotationsForIngressName lower tbl n of
        Inl p \<Rightarrow> Inl p
      | Inr d \<Rightarrow>
          (case writeDefaults (AList.clearjunk d) a of
             Inl p \<Rightarrow> Inl p
           | Inr a' \<Rightarrow>
               Inr (Inr [\<lparr>Op = ''add'', Path = ''/metadata/annotations'', Value = a'\<rparr>], a')))"
  by (simp add: createPatch_def updateAnnotation_def jsonMarshal_def split: sum.splits)

lemma defaults_found:
  "namesTyped tbl \<Longrightarrow> find (matchesName lower n) tbl = Some e \<Longrightarrow>
   defaultAnnotationsForIngressName lower tbl n = assertMap (index e ''defaultAnnotations'')"
  using find_matches [of lower n tbl e]
  by (simp add: defaults_find find_decisive_typed matches_typed)

lemma found_ex:
  "find (matchesName lower n) tbl = Some e \<Longrightarrow> list_ex (matchesName lower n) tbl"
  by (metis find_Some_iff list_ex_iff nth_mem)

text \<open>
  The merge on an annotation map that is not nil, for a matched entry whose defaults are
  strings: one \<^verbatim>\<open>add\<close> operation whose value is the map with every policy key set to the
  policy's string and every other key as it was.
\<close>

lemma createPatch_typed:
  assumes "namesTyped tbl" "find (matchesName lower n) tbl = Some e"
    "map_of e ''defaultAnnotations'' = Some (Map d)" "valuesTyped d"
  shows "createPatch lower n (Some a) tbl =
     Inr (Inr [\<lparr>Op = ''add'', Path = ''/metadata/annotations'', Value = Some (merged a d)\<rparr>],
          Some (merged a d))"
  using assms
  by (simp add: createPatch_unfold defaults_found index_def assertMap_def writeDefaults_typed
      valuesTyped_clearjunk distinct_clearjunk merged_clearjunk)


lemma createPatch_cong:
  "defaultAnnotationsForIngressName lower tbl n = defaultAnnotationsForIngressName lower tbl' n \<Longrightarrow>
   createPatch lower n a tbl = createPatch lower n a tbl'"
  by (simp add: createPatch_def)


section \<open>The decision\<close>





section \<open>The patch\<close>

text \<open>
  C2. The claim asks for the merged patch on every current annotation map. The Ingress of the
  example policy, submitted without annotations (the map is nil), is a failing input:
  \<^verbatim>\<open>createPatch\<close> does not return a patch, the first write of the loop of
  \<^verbatim>\<open>updateAnnotation\<close> panics (assignment to entry in nil map), although
  \<^verbatim>\<open>mutationRequired\<close> guards against the nil map for itself. For a map that is not nil
  and defaults that are strings, \<open>createPatch_typed\<close> gives the patch the claim describes.
\<close>

theorem createPatch_nil_annotations:
  "createPatch lower ''test-ingress'' None examplePolicy = Inl NilMapAssignment"
  by (simp add: createPatch_unfold examplePolicy_def defaultAnnotationsForIngressName.simps
      index_def assertMap_def Compare_eq_0)

text \<open>
  C9. For every Ingress whose annotation map is nil, whose namespace is not ignored, and whose
  name matches a policy entry with at least one default annotation (all of them strings),
  \<^verbatim>\<open>mutationRequired\<close> answers true, \<^verbatim>\<open>createPatch\<close> panics with a write into the nil
  map instead of returning the merged patch, and so does \<^verbatim>\<open>mutate\<close> on a review request
  of kind Ingress that carries this object. The witness is such an Ingress.
\<close>

theorem nil_annotations_panic:
  assumes "Annotations m = None" and "Namespace m \<notin> set ignoredNamespaces"
    and "namesTyped tbl" and "find (matchesName lower (Name m)) tbl = Some e"
    and "map_of e ''defaultAnnotations'' = Some (Map d)" and "d \<noteq> []" and "valuesTyped d"
  shows "mutationRequired lower ignoredNamespaces tbl (Some m) = Inr True \<and>
         createPatch lower (Name m) (Annotations m) tbl = Inl NilMapAssignment \<and>
         (\<forall>unmarshal req.
            Kind req = ''Ingress'' \<and> unmarshal (ObjectRaw req) = Inr m \<longrightarrow>
            mutate lower unmarshal \<lparr>defaultAnnotations = tbl\<rparr> \<lparr>Request = Some req\<rparr> =
              Inl NilMapAssignment)"
proof -
  have req: "mutationRequired lower ignoredNamespaces tbl (Some m) = Inr True"
    using assms by (simp add: mutationRequired_typed found_ex markedMutated_def)
  have "valuesTyped (AList.clearjunk d)" "AList.clearjunk d \<noteq> []"
    using assms by (simp_all add: valuesTyped_clearjunk clearjunk_Nil_iff)
  then have "writeDefaults (AList.clearjunk d) None = Inl NilMapAssignment"
    by (simp add: writeDefaults_nil_typed)
  then have cp: "createPatch lower (Name m) (Annotations m) tbl = Inl NilMapAssignment"
    using assms by (simp add: createPatch_unfold defaults_found index_def assertMap_def)
  show ?thesis
    using req cp by (simp add: mutate_def)
qed

theorem nil_annotations_panic_witness:
  "\<forall>lower.
   Annotations (exampleMeta ''test-ingress'' ''default'' None) = None \<and>
   Namespace (exampleMeta ''test-ingress'' ''default'' None) \<notin> set ignoredNamespaces \<and>
   namesTyped examplePolicy \<and>
   mutationRequired lower ignoredNamespaces examplePolicy
     (Some (exampleMeta ''test-ingress'' ''default'' None)) = Inr True \<and>
   createPatch lower ''test-ingress'' None examplePolicy = Inl NilMapAssignment \<and>
   mutate lower (\<lambda>raw. Inr (exampleMeta ''test-ingress'' ''default'' None))
     \<lparr>defaultAnnotations = examplePolicy\<rparr>
     \<lparr>Request = Some \<lparr>UID = ''1'', Kind = ''Ingress'', ReqNamespace = ''default'',
        ReqName = ''test-ingress'', Operation = ''CREATE'', ObjectRaw = []\<rparr>\<rparr> =
     Inl NilMapAssignment"
proof
  fix lower :: "string \<Rightarrow> string"
  let ?m = "exampleMeta ''test-ingress'' ''default'' None"
  let ?e = "hd examplePolicy"
  let ?d = "[(''ingress.citrix.com/secure-port'', String ''4443''),
             (''ingress.citrix.com/insecure-port'', String ''81'')]"
  have a: "Annotations ?m = None" by (simp add: exampleMeta_def)
  have b: "Namespace ?m \<notin> set ignoredNamespaces"
    by (simp add: exampleMeta_def ignoredNamespaces_def)
  have c: "namesTyped examplePolicy"
    by (simp add: examplePolicy_def namesTyped_def nameTyped_def isString_def)
  have d: "find (matchesName lower (Name ?m)) examplePolicy = Some ?e"
    by (simp add: examplePolicy_def exampleMeta_def matchesName_def ToLower_def lowerByte_def isASCII_def)
  have e: "map_of ?e ''defaultAnnotations'' = Some (Map ?d)"
    by (simp add: examplePolicy_def)
  have f: "?d \<noteq> []" by simp
  have g: "valuesTyped ?d" by (simp add: valuesTyped_def isString_def)
  have n: "Name ?m = ''test-ingress''" by (simp add: exampleMeta_def)
  note r = nil_annotations_panic [OF a b c d e f g]
  from r have 1: "mutationRequired lower ignoredNamespaces examplePolicy (Some ?m) = Inr True"
    by (rule conjunct1)
  from r a n have 2: "createPatch lower ''test-ingress'' None examplePolicy = Inl NilMapAssignment"
    by simp
  from r have "\<forall>unmarshal req.
            Kind req = ''Ingress'' \<and> unmarshal (ObjectRaw req) = Inr ?m \<longrightarrow>
            mutate lower unmarshal \<lparr>defaultAnnotations = examplePolicy\<rparr> \<lparr>Request = Some req\<rparr> =
              Inl NilMapAssignment"
    by (rule conjunct2 [THEN conjunct2])
  then have 3: "mutate lower (\<lambda>raw. Inr ?m)
     \<lparr>defaultAnnotations = examplePolicy\<rparr>
     \<lparr>Request = Some \<lparr>UID = ''1'', Kind = ''Ingress'', ReqNamespace = ''default'',
        ReqName = ''test-ingress'', Operation = ''CREATE'', ObjectRaw = []\<rparr>\<rparr> =
     Inl NilMapAssignment"
    by simp
  show "Annotations (exampleMeta ''test-ingress'' ''default'' None) = None \<and>
   Namespace (exampleMeta ''test-ingress'' ''default'' None) \<notin> set ignoredNamespaces \<and>
   namesTyped examplePolicy \<and>
   mutationRequired lower ignoredNamespaces examplePolicy
     (Some (exampleMeta ''test-ingress'' ''default'' None)) = Inr True \<and>
   createPatch lower ''test-ingress'' None examplePolicy = Inl NilMapAssignment \<and>
   mutate lower (\<lambda>raw. Inr (exampleMeta ''test-ingress'' ''default'' None))
     \<lparr>defaultAnnotations = examplePolicy\<rparr>
     \<lparr>Request = Some \<lparr>UID = ''1'', Kind = ''Ingress'', ReqNamespace = ''default'',
        ReqName = ''test-ingress'', Operation = ''CREATE'', ObjectRaw = []\<rparr>\<rparr> =
     Inl NilMapAssignment" using a b c 1 2 3 by (simp only: simp_thms)
qed

text \<open>
  C10. Let the first entry matching the name be \<open>e\<close>. When \<open>e\<close> has no
  \<^verbatim>\<open>defaultAnnotations\<close> field, or the field is not a map, \<^verbatim>\<open>createPatch\<close> panics in
  its type assertion; when the field is a map with a value that is not a string,
  \<^verbatim>\<open>updateAnnotation\<close> and \<^verbatim>\<open>createPatch\<close> panic in the assertion of the loop (on a
  nil annotation map the panic may be the nil write instead). No error is returned and the
  entry is not skipped. The witness has one policy table for each of the three cases.
\<close>

theorem unchecked_casts_panic:
  assumes "namesTyped tbl" and "find (matchesName lower n) tbl = Some e"
  shows "(map_of e ''defaultAnnotations'' = None \<longrightarrow>
            createPatch lower n a tbl = Inl InterfaceConversion) \<and>
         (\<forall>v. map_of e ''defaultAnnotations'' = Some v \<and> (\<forall>d. v \<noteq> Map d) \<longrightarrow>
            createPatch lower n a tbl = Inl InterfaceConversion) \<and>
         (\<forall>d k v. map_of e ''defaultAnnotations'' = Some (Map d) \<and> map_of d k = Some v \<and>
              \<not> isString v \<longrightarrow>
            updateAnnotation (Some a') d = Inl InterfaceConversion \<and>
            createPatch lower n (Some a') tbl = Inl InterfaceConversion \<and>
            (\<exists>p. createPatch lower n a tbl = Inl p))"
proof (intro conjI allI impI)
  assume "map_of e ''defaultAnnotations'' = None"
  then show "createPatch lower n a tbl = Inl InterfaceConversion"
    using assms by (simp add: createPatch_unfold defaults_found index_def assertMap_def)
next
  fix v assume "map_of e ''defaultAnnotations'' = Some v \<and> (\<forall>d. v \<noteq> Map d)"
  then have "assertMap (index e ''defaultAnnotations'') = Inl InterfaceConversion"
    by (cases v) (simp_all add: index_def assertMap_def)
  then show "createPatch lower n a tbl = Inl InterfaceConversion"
    using assms by (simp add: createPatch_unfold defaults_found)
next
  fix d k v
  assume h: "map_of e ''defaultAnnotations'' = Some (Map d) \<and> map_of d k = Some v \<and> \<not> isString v"
  then have nt: "\<not> valuesTyped (AList.clearjunk d)"
    by (auto simp: valuesTyped_clearjunk_iff)
  have dd: "defaultAnnotationsForIngressName lower tbl n = Inr d"
    using assms h by (simp add: defaults_found index_def assertMap_def)
  show "updateAnnotation (Some a') d = Inl InterfaceConversion"
    using nt by (simp add: updateAnnotation_def writeDefaults_untyped)
  show "createPatch lower n (Some a') tbl = Inl InterfaceConversion"
    using nt dd by (simp add: createPatch_unfold writeDefaults_untyped)
  show "\<exists>p. createPatch lower n a tbl = Inl p"
  proof (cases a)
    case None
    have "AList.clearjunk d \<noteq> []" using nt by (auto simp: valuesTyped_def)
    then show ?thesis using None dd
      by (auto simp: createPatch_unfold writeDefaults_nil split: list.splits)
  next
    case (Some x)
    then show ?thesis using nt dd by (simp add: createPatch_unfold writeDefaults_untyped)
  qed
qed


theorem unchecked_casts_panic_witness:
  "\<forall>lower.
   namesTyped policyWithoutDefaults \<and>
   find (matchesName lower ''test-ingress'') policyWithoutDefaults = Some (hd policyWithoutDefaults) \<and>
   map_of (hd policyWithoutDefaults) ''defaultAnnotations'' = None \<and>
   createPatch lower ''test-ingress'' (Some Map.empty) policyWithoutDefaults = Inl InterfaceConversion \<and>
   namesTyped policyDefaultsNotMap \<and>
   find (matchesName lower ''test-ingress'') policyDefaultsNotMap = Some (hd policyDefaultsNotMap) \<and>
   map_of (hd policyDefaultsNotMap) ''defaultAnnotations'' = Some (String ''81'') \<and>
   createPatch lower ''test-ingress'' (Some Map.empty) policyDefaultsNotMap = Inl InterfaceConversion \<and>
   namesTyped policyValueNotString \<and>
   find (matchesName lower ''test-ingress'') policyValueNotString = Some (hd policyValueNotString) \<and>
   map_of (hd policyValueNotString) ''defaultAnnotations'' =
     Some (Map [(''ingress.citrix.com/insecure-port'', Float64 81)]) \<and>
   \<not> isString (Float64 81) \<and>
   updateAnnotation (Some Map.empty) [(''ingress.citrix.com/insecure-port'', Float64 81)] =
     Inl InterfaceConversion \<and>
   createPatch lower ''test-ingress'' (Some Map.empty) policyValueNotString = Inl InterfaceConversion"
proof
  fix lower :: "string \<Rightarrow> string"
  have t1: "namesTyped policyWithoutDefaults"
    by (simp add: policyWithoutDefaults_def namesTyped_def nameTyped_def isString_def)
  have f1: "find (matchesName lower ''test-ingress'') policyWithoutDefaults =
            Some (hd policyWithoutDefaults)"
    by (simp add: policyWithoutDefaults_def matchesName_def)
  have m1: "map_of (hd policyWithoutDefaults) ''defaultAnnotations'' = None"
    by (simp add: policyWithoutDefaults_def)
  have r1: "createPatch lower ''test-ingress'' (Some Map.empty) policyWithoutDefaults =
            Inl InterfaceConversion"
    using unchecked_casts_panic [OF t1 f1, where a = "Some Map.empty" and a' = Map.empty] m1 by simp
  have t2: "namesTyped policyDefaultsNotMap"
    by (simp add: policyDefaultsNotMap_def namesTyped_def nameTyped_def isString_def)
  have f2: "find (matchesName lower ''test-ingress'') policyDefaultsNotMap =
            Some (hd policyDefaultsNotMap)"
    by (simp add: policyDefaultsNotMap_def matchesName_def)
  have m2: "map_of (hd policyDefaultsNotMap) ''defaultAnnotations'' = Some (String ''81'')"
    by (simp add: policyDefaultsNotMap_def)
  have r2: "createPatch lower ''test-ingress'' (Some Map.empty) policyDefaultsNotMap =
            Inl InterfaceConversion"
    using unchecked_casts_panic [OF t2 f2, where a = "Some Map.empty" and a' = Map.empty] m2 by simp
  have t3: "namesTyped policyValueNotString"
    by (simp add: policyValueNotString_def namesTyped_def nameTyped_def isString_def)
  have f3: "find (matchesName lower ''test-ingress'') policyValueNotString =
            Some (hd policyValueNotString)"
    by (simp add: policyValueNotString_def matchesName_def)
  have m3: "map_of (hd policyValueNotString) ''defaultAnnotations'' =
            Some (Map [(''ingress.citrix.com/insecure-port'', Float64 81)])"
    by (simp add: policyValueNotString_def)
  have k3: "map_of [(''ingress.citrix.com/insecure-port'', Float64 81)]
              ''ingress.citrix.com/insecure-port'' = Some (Float64 81)"
    by simp
  have s3: "\<not> isString (Float64 81)"
    by (simp add: isString_def)
  from unchecked_casts_panic [OF t3 f3, where a = "Some Map.empty" and a' = Map.empty]
  have "\<forall>d k v. map_of (hd policyValueNotString) ''defaultAnnotations'' = Some (Map d) \<and>
              map_of d k = Some v \<and> \<not> isString v \<longrightarrow>
            updateAnnotation (Some Map.empty) d = Inl InterfaceConversion \<and>
            createPatch lower ''test-ingress'' (Some Map.empty) policyValueNotString =
              Inl InterfaceConversion \<and>
            (\<exists>p. createPatch lower ''test-ingress'' (Some Map.empty) policyValueNotString = Inl p)"
    by (rule conjunct2 [THEN conjunct2])
  with m3 k3 s3
  have r3: "updateAnnotation (Some Map.empty)
              [(''ingress.citrix.com/insecure-port'', Float64 81)] = Inl InterfaceConversion \<and>
            createPatch lower ''test-ingress'' (Some Map.empty) policyValueNotString =
              Inl InterfaceConversion"
    by blast
  show "namesTyped policyWithoutDefaults \<and>
   find (matchesName lower ''test-ingress'') policyWithoutDefaults = Some (hd policyWithoutDefaults) \<and>
   map_of (hd policyWithoutDefaults) ''defaultAnnotations'' = None \<and>
   createPatch lower ''test-ingress'' (Some Map.empty) policyWithoutDefaults = Inl InterfaceConversion \<and>
   namesTyped policyDefaultsNotMap \<and>
   find (matchesName lower ''test-ingress'') policyDefaultsNotMap = Some (hd policyDefaultsNotMap) \<and>
   map_of (hd policyDefaultsNotMap) ''defaultAnnotations'' = Some (String ''81'') \<and>
   createPatch lower ''test-ingress'' (Some Map.empty) policyDefaultsNotMap = Inl InterfaceConversion \<and>
   namesTyped policyValueNotString \<and>
   find (matchesName lower ''test-ingress'') policyValueNotString = Some (hd policyValueNotString) \<and>
   map_of (hd policyValueNotString) ''defaultAnnotations'' =
     Some (Map [(''ingress.citrix.com/insecure-port'', Float64 81)]) \<and>
   \<not> isString (Float64 81) \<and>
   updateAnnotation (Some Map.empty) [(''ingress.citrix.com/insecure-port'', Float64 81)] =
     Inl InterfaceConversion \<and>
   createPatch lower ''test-ingress'' (Some Map.empty) policyValueNotString = Inl InterfaceConversion"
    using t1 f1 m1 r1 t2 f2 m2 r2 t3 f3 m3 s3 r3 by (simp only: simp_thms)
qed

section \<open>Requests of another kind\<close>

text \<open>
  C3. The claim asks that a request of a kind other than Ingress is allowed without a patch.
  For such a request the switch of \<^verbatim>\<open>mutate\<close> sets nothing, \<^verbatim>\<open>objectMeta\<close> is still nil
  when \<^verbatim>\<open>mutationRequired\<close> is called, and \<^verbatim>\<open>admissionRequired\<close> reads
  \<^verbatim>\<open>metadata.Namespace\<close> through it: the call panics and no response is returned
  (\<open>mutate_not_Ingress\<close> for every such request). A request for a Pod is a failing input.
\<close>

theorem mutate_other_kind_panics:
  "mutate lower unmarshal whsvr
     \<lparr>Request = Some \<lparr>UID = ''1'', Kind = ''Pod'', ReqNamespace = ''default'', ReqName = ''web'',
        Operation = ''CREATE'', ObjectRaw = ''{}''\<rparr>\<rparr> = Inl NilPointerDereference"
  by (simp add: mutate_def mutationRequired_def ignoredNamespaces_def)

section \<open>Side effects of the patch synthesis\<close>

text \<open>
  C4, as stated, fails: \<^verbatim>\<open>createPatch\<close> writes into the annotation map it is given. On the
  empty (not nil) map and a policy with one default, the map is left with that default in it.
\<close>

theorem createPatch_modifies_annotations:
  "\<forall>lower.
     createPatch lower ''test-ingress'' (Some Map.empty)
       [[(''ingressName'', String ''test-ingress''),
         (''defaultAnnotations'', Map [(''ingress.citrix.com/secure-port'', String ''4443'')])]] =
       Inr (Inr [\<lparr>Op = ''add'', Path = ''/metadata/annotations'',
                 Value = Some [''ingress.citrix.com/secure-port'' \<mapsto> ''4443'']\<rparr>],
            Some [''ingress.citrix.com/secure-port'' \<mapsto> ''4443'']) \<and>
     Some [''ingress.citrix.com/secure-port'' \<mapsto> ''4443''] \<noteq> Some Map.empty"
  by (simp add: createPatch_unfold defaultAnnotationsForIngressName.simps index_def assertMap_def
      Compare_eq_0)

lemma defaults_returns:
  assumes "defaultAnnotationsForIngressName lower tbl n = Inr d"
  shows "case find (decisive lower n) tbl of
           None \<Rightarrow> d = []
         | Some e \<Rightarrow> matchesName lower n e \<and> map_of e ''defaultAnnotations'' = Some (Map d)"
proof (cases "find (decisive lower n) tbl")
  case None
  with assms show ?thesis by (simp add: defaults_find)
next
  case (Some e)
  with assms have t: "nameTyped e" and am: "assertMap (index e ''defaultAnnotations'') = Inr d"
    by (auto simp: defaults_find split: if_splits)
  from am have "map_of e ''defaultAnnotations'' = Some (Map d)"
    by (auto simp: assertMap_def index_def split: option.splits iface.splits)
  moreover from find_decisive_Some [OF Some] t have "matchesName lower n e" by simp
  ultimately show ?thesis using Some by simp
qed

text \<open>
  C4, amended. Whenever \<^verbatim>\<open>createPatch\<close> returns, it has written the defaults of the
  deciding entry into the annotation map it was given: with \<open>d\<close> the
  \<^verbatim>\<open>defaultAnnotations\<close> of the first matching entry (the empty map when no entry
  matches), every value of \<open>d\<close> is a string and the map \<open>x\<close> is left as \<open>merged x d\<close>, each
  key of \<open>d\<close> set to the policy's string and every other key as it was (a nil map is left
  nil, and then \<open>d\<close> is empty). The document is the single operation \<^verbatim>\<open>add\<close> at
  \<^verbatim>\<open>/metadata/annotations\<close> whose value is the map as the call left it, and calling
  \<^verbatim>\<open>createPatch\<close> again with the same name and table on that map returns the same
  document and leaves the map as it is. In the witness the submitter's port is overwritten,
  the missing port is added and the class annotation is kept.
\<close>

theorem createPatch_in_place:
  "createPatch lower n a tbl = Inr (r, a') \<longrightarrow>
     (\<exists>d. defaultAnnotationsForIngressName lower tbl n = Inr d \<and>
          (case find (decisive lower n) tbl of
             None \<Rightarrow> d = []
           | Some e \<Rightarrow> matchesName lower n e \<and> map_of e ''defaultAnnotations'' = Some (Map d)) \<and>
          ((a = None \<and> d = [] \<and> a' = None) \<or>
           (\<exists>x. a = Some x \<and> (\<forall>k v. map_of d k = Some v \<longrightarrow> isString v) \<and>
                a' = Some (merged x d)))) \<and>
     r = Inr [\<lparr>Op = ''add'', Path = ''/metadata/annotations'', Value = a'\<rparr>] \<and>
     createPatch lower n a' tbl = Inr (r, a')"
proof
  assume h: "createPatch lower n a tbl = Inr (r, a')"
  then obtain d where d: "defaultAnnotationsForIngressName lower tbl n = Inr d"
    by (auto simp: createPatch_unfold split: sum.splits)
  with h have w: "writeDefaults (AList.clearjunk d) a = Inr a'"
    and r: "r = Inr [\<lparr>Op = ''add'', Path = ''/metadata/annotations'', Value = a'\<rparr>]"
    by (auto simp: createPatch_unfold split: sum.splits)
  have again: "createPatch lower n a' tbl = Inr (r, a')"
    using writeDefaults_idem [OF w] d r by (simp add: createPatch_unfold)
  from d defaults_returns [OF d] writeDefaults_returns [OF w]
  have "\<exists>d. defaultAnnotationsForIngressName lower tbl n = Inr d \<and>
          (case find (decisive lower n) tbl of
             None \<Rightarrow> d = []
           | Some e \<Rightarrow> matchesName lower n e \<and> map_of e ''defaultAnnotations'' = Some (Map d)) \<and>
          ((a = None \<and> d = [] \<and> a' = None) \<or>
           (\<exists>x. a = Some x \<and> (\<forall>k v. map_of d k = Some v \<longrightarrow> isString v) \<and>
                a' = Some (merged x d)))"
    by blast
  with r again show "(\<exists>d. defaultAnnotationsForIngressName lower tbl n = Inr d \<and>
          (case find (decisive lower n) tbl of
             None \<Rightarrow> d = []
           | Some e \<Rightarrow> matchesName lower n e \<and> map_of e ''defaultAnnotations'' = Some (Map d)) \<and>
          ((a = None \<and> d = [] \<and> a' = None) \<or>
           (\<exists>x. a = Some x \<and> (\<forall>k v. map_of d k = Some v \<longrightarrow> isString v) \<and>
                a' = Some (merged x d)))) \<and>
     r = Inr [\<lparr>Op = ''add'', Path = ''/metadata/annotations'', Value = a'\<rparr>] \<and>
     createPatch lower n a' tbl = Inr (r, a')"
    by simp
qed

theorem createPatch_in_place_witness:
  "\<forall>lower.
     createPatch lower ''test-ingress'' (Some submittedAnnotations) examplePolicy =
       Inr (Inr [\<lparr>Op = ''add'', Path = ''/metadata/annotations'',
                 Value = Some (merged submittedAnnotations exampleDefaults)\<rparr>],
            Some (merged submittedAnnotations exampleDefaults)) \<and>
     find (decisive lower ''test-ingress'') examplePolicy = Some (hd examplePolicy) \<and>
     map_of (hd examplePolicy) ''defaultAnnotations'' = Some (Map exampleDefaults) \<and>
     merged submittedAnnotations exampleDefaults ''ingress.citrix.com/secure-port'' = Some ''4443'' \<and>
     merged submittedAnnotations exampleDefaults ''ingress.citrix.com/insecure-port'' = Some ''81'' \<and>
     merged submittedAnnotations exampleDefaults ''kubernetes.io/ingress.class'' = Some ''class1'' \<and>
     merged submittedAnnotations exampleDefaults \<noteq> submittedAnnotations \<and>
     createPatch lower ''test-ingress'' (Some (merged submittedAnnotations exampleDefaults))
       examplePolicy =
       Inr (Inr [\<lparr>Op = ''add'', Path = ''/metadata/annotations'',
                 Value = Some (merged submittedAnnotations exampleDefaults)\<rparr>],
            Some (merged submittedAnnotations exampleDefaults))"
proof
  fix lower :: "string \<Rightarrow> string"
  let ?a' = "merged submittedAnnotations exampleDefaults"
  let ?r = "Inr [\<lparr>Op = ''add'', Path = ''/metadata/annotations'', Value = Some ?a'\<rparr>]
             :: string + patchOperation list"
  have c: "namesTyped examplePolicy"
    by (simp add: examplePolicy_def namesTyped_def nameTyped_def isString_def)
  have f: "find (matchesName lower ''test-ingress'') examplePolicy = Some (hd examplePolicy)"
    by (simp add: examplePolicy_def matchesName_def)
  have f': "find (decisive lower ''test-ingress'') examplePolicy = Some (hd examplePolicy)"
    using f by (simp add: find_decisive_typed [OF c])
  have e: "map_of (hd examplePolicy) ''defaultAnnotations'' = Some (Map exampleDefaults)"
    by (simp add: examplePolicy_def exampleDefaults_def)
  have g: "valuesTyped exampleDefaults"
    by (simp add: exampleDefaults_def valuesTyped_def isString_def)
  have 1: "createPatch lower ''test-ingress'' (Some submittedAnnotations) examplePolicy =
      Inr (?r, Some ?a')"
    by (rule createPatch_typed [OF c f e g])
  have v: "?a' ''ingress.citrix.com/secure-port'' = Some ''4443''"
    "?a' ''ingress.citrix.com/insecure-port'' = Some ''81''"
    "?a' ''kubernetes.io/ingress.class'' = Some ''class1''"
    by (simp_all add: merged_def exampleDefaults_def submittedAnnotations_def)
  have "submittedAnnotations ''ingress.citrix.com/secure-port'' = Some ''443''"
    by (simp add: submittedAnnotations_def)
  with v(1) have ne: "?a' \<noteq> submittedAnnotations" by auto
  from createPatch_in_place [of lower "''test-ingress''" "Some submittedAnnotations"
      examplePolicy ?r "Some ?a'"] 1
  have 2: "createPatch lower ''test-ingress'' (Some ?a') examplePolicy = Inr (?r, Some ?a')"
    by blast
  show "createPatch lower ''test-ingress'' (Some submittedAnnotations) examplePolicy =
       Inr (?r, Some ?a') \<and>
     find (decisive lower ''test-ingress'') examplePolicy = Some (hd examplePolicy) \<and>
     map_of (hd examplePolicy) ''defaultAnnotations'' = Some (Map exampleDefaults) \<and>
     ?a' ''ingress.citrix.com/secure-port'' = Some ''4443'' \<and>
     ?a' ''ingress.citrix.com/insecure-port'' = Some ''81'' \<and>
     ?a' ''kubernetes.io/ingress.class'' = Some ''class1'' \<and>
     ?a' \<noteq> submittedAnnotations \<and>
     createPatch lower ''test-ingress'' (Some ?a') examplePolicy = Inr (?r, Some ?a')"
    using 1 f' e v ne 2 by (simp only: simp_thms)
qed

section \<open>Objects that carry the status marker\<close>

text \<open>
  C5, as stated, fails. An Ingress that carries the status marker is not answered false on
  the policy table that has an entry with a number as \<^verbatim>\<open>ingressName\<close> before the matching
  entry: the lookup of lines 86 to 96 runs before the marker is read at lines 100 to 104, and
  its type assertion panics.
\<close>

theorem mutated_number_name:
  "\<forall>lower.
     markedMutated lower (Annotations (exampleMeta ''test-ingress'' ''default'' markedAnnotations)) \<and>
     mutationRequired lower ignoredNamespaces policyNumberFirst
       (Some (exampleMeta ''test-ingress'' ''default'' markedAnnotations)) =
       Inl InterfaceConversion"
  by (simp add: exampleMeta_def markedAnnotations_def markedMutated_def
      admissionWebhookAnnotationStatusKey_def ToLower_def lowerByte_def isASCII_def
      mutationRequired_find policyNumberFirst_def decisive_def nameTyped_def isString_def)

lemma createPatch_lookup_returns:
  assumes "createPatch lower n a tbl = Inr (r, a')"
  shows "case find (decisive lower n) tbl of None \<Rightarrow> True | Some e \<Rightarrow> nameTyped e"
proof -
  from assms obtain d where "defaultAnnotationsForIngressName lower tbl n = Inr d"
    by (auto simp: createPatch_unfold split: sum.splits)
  then show ?thesis
    by (auto simp: defaults_find split: option.splits if_splits)
qed

text \<open>
  C5, amended. For an object whose annotations carry the status marker with the value
  \<^verbatim>\<open>mutated\<close> in any case, \<^verbatim>\<open>mutationRequired\<close> never returns true, whether or not an
  entry matches: it returns false, or it panics in the lookup, and it panics exactly when
  the first entry that matches or has a name that is not a string is of the second kind; on
  a table whose \<^verbatim>\<open>ingressName\<close> fields are all strings it returns false. When
  \<^verbatim>\<open>createPatch\<close> has returned a patch for an object, the annotations of the object are
  replaced by the value of that patch and the marker is set in it, \<^verbatim>\<open>mutationRequired\<close>
  returns false on the result, on every table. In the witness the policy itself sets the
  marker.
\<close>

theorem mutated_not_required:
  "(markedMutated lower (Annotations m) \<longrightarrow>
      mutationRequired lower ignoredList tbl (Some m) \<noteq> Inr True \<and>
      (mutationRequired lower ignoredList tbl (Some m) = Inr False \<or>
       mutationRequired lower ignoredList tbl (Some m) = Inl InterfaceConversion) \<and>
      (namesTyped tbl \<longrightarrow> mutationRequired lower ignoredList tbl (Some m) = Inr False) \<and>
      (mutationRequired lower ignoredList tbl (Some m) = Inl InterfaceConversion \<longleftrightarrow>
         (\<exists>e. find (decisive lower (Name m)) tbl = Some e \<and> \<not> nameTyped e))) \<and>
   (\<forall>op a'. createPatch lower (Name m) (Annotations m) tbl = Inr (Inr [op], a') \<and>
        markedMutated lower (Value op) \<longrightarrow>
      mutationRequired lower ignoredList tbl (Some (m\<lparr>Annotations := Value op\<rparr>)) = Inr False)"
proof (intro conjI impI allI)
  assume mk: "markedMutated lower (Annotations m)"
  then show "mutationRequired lower ignoredList tbl (Some m) \<noteq> Inr True"
    by (simp add: mutationRequired_find split: option.splits)
  from mk show "mutationRequired lower ignoredList tbl (Some m) = Inr False \<or>
       mutationRequired lower ignoredList tbl (Some m) = Inl InterfaceConversion"
    by (simp add: mutationRequired_find split: option.splits)
  from mk show "mutationRequired lower ignoredList tbl (Some m) = Inl InterfaceConversion \<longleftrightarrow>
         (\<exists>e. find (decisive lower (Name m)) tbl = Some e \<and> \<not> nameTyped e)"
    by (auto simp: mutationRequired_find split: option.splits)
  assume "namesTyped tbl"
  with mk show "mutationRequired lower ignoredList tbl (Some m) = Inr False"
    by (simp add: mutationRequired_typed)
next
  fix op a'
  assume h: "createPatch lower (Name m) (Annotations m) tbl = Inr (Inr [op], a') \<and>
        markedMutated lower (Value op)"
  then have "case find (decisive lower (Name m)) tbl of None \<Rightarrow> True | Some e \<Rightarrow> nameTyped e"
    using createPatch_lookup_returns by blast
  with h show "mutationRequired lower ignoredList tbl (Some (m\<lparr>Annotations := Value op\<rparr>)) =
      Inr False"
    by (auto simp: mutationRequired_find split: option.splits)
qed

theorem mutated_not_required_witness:
  "\<forall>lower.
     markedMutated lower (Annotations (exampleMeta ''test-ingress'' ''default'' markedAnnotations)) \<and>
     namesTyped policyWithStatus \<and>
     mutationRequired lower ignoredNamespaces policyWithStatus
       (Some (exampleMeta ''test-ingress'' ''default'' markedAnnotations)) = Inr False \<and>
     find (decisive lower ''test-ingress'') policyNumberFirst = Some (hd policyNumberFirst) \<and>
     \<not> nameTyped (hd policyNumberFirst) \<and>
     mutationRequired lower ignoredNamespaces policyNumberFirst
       (Some (exampleMeta ''test-ingress'' ''default'' markedAnnotations)) =
       Inl InterfaceConversion \<and>
     mutationRequired lower ignoredNamespaces policyWithStatus
       (Some (exampleMeta ''test-ingress'' ''default'' (Some Map.empty))) = Inr True \<and>
     createPatch lower ''test-ingress'' (Some Map.empty) policyWithStatus =
       Inr (Inr [\<lparr>Op = ''add'', Path = ''/metadata/annotations'', Value = markedAnnotations\<rparr>],
            markedAnnotations) \<and>
     markedMutated lower markedAnnotations \<and>
     mutationRequired lower ignoredNamespaces policyWithStatus
       (Some (exampleMeta ''test-ingress'' ''default'' markedAnnotations)) = Inr False"
proof
  fix lower :: "string \<Rightarrow> string"
  let ?mk = "exampleMeta ''test-ingress'' ''default'' markedAnnotations"
  let ?m0 = "exampleMeta ''test-ingress'' ''default'' (Some Map.empty)"
  let ?op = "\<lparr>Op = ''add'', Path = ''/metadata/annotations'', Value = markedAnnotations\<rparr>"
  have t: "namesTyped policyWithStatus"
    by (simp add: policyWithStatus_def namesTyped_def nameTyped_def isString_def)
  have m2: "markedMutated lower markedAnnotations"
    by (simp add: markedAnnotations_def markedMutated_def admissionWebhookAnnotationStatusKey_def
        ToLower_def lowerByte_def isASCII_def)
  then have m1: "markedMutated lower (Annotations ?mk)"
    by (simp add: exampleMeta_def)
  have n: "Name ?mk = ''test-ingress''" "Name ?m0 = ''test-ingress''"
    "Annotations ?m0 = Some Map.empty"
    by (simp_all add: exampleMeta_def)
  have r1: "mutationRequired lower ignoredNamespaces policyWithStatus (Some ?mk) = Inr False"
    using mutated_not_required [of lower ?mk ignoredNamespaces policyWithStatus] m1 t
    by blast
  have d1: "find (decisive lower ''test-ingress'') policyNumberFirst = Some (hd policyNumberFirst)"
    and d2: "\<not> nameTyped (hd policyNumberFirst)"
    by (simp_all add: policyNumberFirst_def decisive_def nameTyped_def isString_def)
  have r3: "mutationRequired lower ignoredNamespaces policyNumberFirst (Some ?mk) =
      Inl InterfaceConversion"
    using mutated_not_required [of lower ?mk ignoredNamespaces policyNumberFirst] m1 d1 d2 n(1)
    by auto
  have r0: "mutationRequired lower ignoredNamespaces policyWithStatus (Some ?m0) = Inr True"
    using mutationRequired_typed [OF t, of lower ignoredNamespaces ?m0]
    by (simp add: exampleMeta_def ignoredNamespaces_def policyWithStatus_def matchesName_def
        markedMutated_def)
  have cp: "createPatch lower ''test-ingress'' (Some Map.empty) policyWithStatus =
              Inr (Inr [?op], markedAnnotations)"
    by (simp add: createPatch_unfold policyWithStatus_def markedAnnotations_def
        defaultAnnotationsForIngressName.simps index_def assertMap_def Compare_eq_0)
  have r2: "mutationRequired lower ignoredNamespaces policyWithStatus (Some ?mk) = Inr False"
    using mutated_not_required [of lower ?m0 ignoredNamespaces policyWithStatus] cp m2 n
    by (simp add: exampleMeta_def)
  show "markedMutated lower (Annotations ?mk) \<and>
     namesTyped policyWithStatus \<and>
     mutationRequired lower ignoredNamespaces policyWithStatus (Some ?mk) = Inr False \<and>
     find (decisive lower ''test-ingress'') policyNumberFirst = Some (hd policyNumberFirst) \<and>
     \<not> nameTyped (hd policyNumberFirst) \<and>
     mutationRequired lower ignoredNamespaces policyNumberFirst (Some ?mk) =
       Inl InterfaceConversion \<and>
     mutationRequired lower ignoredNamespaces policyWithStatus (Some ?m0) = Inr True \<and>
     createPatch lower ''test-ingress'' (Some Map.empty) policyWithStatus =
       Inr (Inr [?op], markedAnnotations) \<and>
     markedMutated lower markedAnnotations \<and>
     mutationRequired lower ignoredNamespaces policyWithStatus (Some ?mk) = Inr False"
    using m1 t r1 d1 d2 r3 r0 cp m2 r2 by (simp only: simp_thms)
qed

section \<open>Inert entries and the deciding entry\<close>

lemma mutationRequired_skip:
  assumes e: "map_of e ''ingressName'' = None"
  shows "mutationRequired lower ign (pre @ e # post) md = mutationRequired lower ign (pre @ post) md"
proof (cases md)
  case None
  then show ?thesis
    by (simp add: mutationRequired_def cong: sum.case_cong)
next
  case (Some m)
  then show ?thesis
    by (simp add: mutationRequired_found ingressFound_skip [OF e])
qed

lemma createPatch_firstDecisive:
  "createPatch lower n a tbl = createPatch lower n a (firstDecisive lower tbl n)"
proof (rule createPatch_cong)
  show "defaultAnnotationsForIngressName lower tbl n =
        defaultAnnotationsForIngressName lower (firstDecisive lower tbl n) n"
  proof (cases "find (decisive lower n) tbl")
    case None
    then show ?thesis by (simp add: defaults_find [of lower tbl] firstDecisive_def)
  next
    case (Some e)
    show ?thesis
    proof (cases "nameTyped e")
      case True
      with find_decisive_Some [OF Some] have "matchesName lower n e" by simp
      then show ?thesis
        using Some True by (simp add: defaults_find [of lower tbl] firstDecisive_def defaults_match)
    next
      case False
      then show ?thesis
        using Some by (simp add: defaults_find [of lower tbl] firstDecisive_def defaults_illtyped)
    qed
  qed
qed

text \<open>
  C6, as stated, fails: entry order has another effect. The two tables below hold the same
  two entries, and the entry of the example policy is the first and only match in both; with
  the entry whose \<^verbatim>\<open>ingressName\<close> is a number in front, both lookups panic, with it behind
  the decision is true and the patch is built.
\<close>

theorem order_changes_result:
  "\<forall>lower.
     set policyNumberFirst = set policyNumberLast \<and>
     find (matchesName lower ''test-ingress'') policyNumberFirst = Some (hd examplePolicy) \<and>
     find (matchesName lower ''test-ingress'') policyNumberLast = Some (hd examplePolicy) \<and>
     mutationRequired lower ignoredNamespaces policyNumberFirst
       (Some (exampleMeta ''test-ingress'' ''default'' None)) = Inl InterfaceConversion \<and>
     mutationRequired lower ignoredNamespaces policyNumberLast
       (Some (exampleMeta ''test-ingress'' ''default'' None)) = Inr True \<and>
     createPatch lower ''test-ingress'' (Some Map.empty) policyNumberFirst =
       Inl InterfaceConversion \<and>
     createPatch lower ''test-ingress'' (Some Map.empty) policyNumberLast =
       Inr (Inr [\<lparr>Op = ''add'', Path = ''/metadata/annotations'',
                 Value = Some [''ingress.citrix.com/secure-port'' \<mapsto> ''4443'',
                               ''ingress.citrix.com/insecure-port'' \<mapsto> ''81'']\<rparr>],
            Some [''ingress.citrix.com/secure-port'' \<mapsto> ''4443'',
                  ''ingress.citrix.com/insecure-port'' \<mapsto> ''81''])"
  by (auto simp add: policyNumberFirst_def policyNumberLast_def examplePolicy_def exampleMeta_def
      matchesName_def mutationRequired_find decisive_def nameTyped_def isString_def
      ignoredNamespaces_def markedMutated_def createPatch_unfold defaults_find index_def
      assertMap_def)

text \<open>
  C6, amended. In both lookups an entry without an \<^verbatim>\<open>ingressName\<close> is skipped: taking it
  out of any table changes neither the lookups nor \<^verbatim>\<open>mutationRequired\<close> and
  \<^verbatim>\<open>createPatch\<close>. Each lookup is decided by the first entry in table order that matches
  the name case-insensitively or has an \<^verbatim>\<open>ingressName\<close> that is not a string: without
  such an entry the decision engine finds nothing and the synthesizer takes the empty
  default map; when the entry is a match, the decision engine has found it and the
  synthesizer takes its \<^verbatim>\<open>defaultAnnotations\<close>, whatever entries follow; otherwise the
  lookup panics. The table enters the results in no other way. On a table whose
  \<^verbatim>\<open>ingressName\<close> fields are all strings the deciding entry is the first match. In the
  witness two entries match and the patch carries the value of the first.
\<close>

theorem first_decisive_wins:
  "(\<forall>pre e post md a. map_of e ''ingressName'' = None \<longrightarrow>
      ingressFound lower (pre @ e # post) n = ingressFound lower (pre @ post) n \<and>
      defaultAnnotationsForIngressName lower (pre @ e # post) n =
        defaultAnnotationsForIngressName lower (pre @ post) n \<and>
      mutationRequired lower ignoredList (pre @ e # post) md =
        mutationRequired lower ignoredList (pre @ post) md \<and>
      createPatch lower n a (pre @ e # post) = createPatch lower n a (pre @ post)) \<and>
   ingressFound lower tbl n =
     (case find (decisive lower n) tbl of
        None \<Rightarrow> Inr False
      | Some e \<Rightarrow> if nameTyped e then Inr True else Inl InterfaceConversion) \<and>
   defaultAnnotationsForIngressName lower tbl n =
     (case find (decisive lower n) tbl of
        None \<Rightarrow> Inr []
      | Some e \<Rightarrow>
          if nameTyped e then assertMap (index e ''defaultAnnotations'')
          else Inl InterfaceConversion) \<and>
   mutationRequired lower ignoredList tbl (Some m) =
     (case find (decisive lower (Name m)) tbl of
        None \<Rightarrow> Inr False
      | Some e \<Rightarrow>
          if nameTyped e then
            Inr (Namespace m \<notin> set ignoredList \<and> \<not> markedMutated lower (Annotations m))
          else Inl InterfaceConversion) \<and>
   createPatch lower n a tbl = createPatch lower n a (firstDecisive lower tbl n) \<and>
   (namesTyped tbl \<longrightarrow> find (decisive lower n) tbl = find (matchesName lower n) tbl) \<and>
   (\<forall>e. find (decisive lower n) tbl = Some e \<and> nameTyped e \<longrightarrow> matchesName lower n e)"
proof (intro conjI allI impI)
  fix pre post :: "gomap list" and e :: gomap and md a
  assume e: "map_of e ''ingressName'' = None"
  show "ingressFound lower (pre @ e # post) n = ingressFound lower (pre @ post) n"
    by (rule ingressFound_skip [OF e])
  show "defaultAnnotationsForIngressName lower (pre @ e # post) n =
        defaultAnnotationsForIngressName lower (pre @ post) n"
    by (rule defaults_skip [OF e])
  show "mutationRequired lower ignoredList (pre @ e # post) md =
      mutationRequired lower ignoredList (pre @ post) md"
    by (rule mutationRequired_skip [OF e])
  show "createPatch lower n a (pre @ e # post) = createPatch lower n a (pre @ post)"
    by (rule createPatch_cong) (rule defaults_skip [OF e])
next
  show "ingressFound lower tbl n =
     (case find (decisive lower n) tbl of
        None \<Rightarrow> Inr False
      | Some e \<Rightarrow> if nameTyped e then Inr True else Inl InterfaceConversion)"
    by (rule ingressFound_find)
next
  show "defaultAnnotationsForIngressName lower tbl n =
     (case find (decisive lower n) tbl of
        None \<Rightarrow> Inr []
      | Some e \<Rightarrow>
          if nameTyped e then assertMap (index e ''defaultAnnotations'')
          else Inl InterfaceConversion)"
    by (rule defaults_find)
next
  show "mutationRequired lower ignoredList tbl (Some m) =
     (case find (decisive lower (Name m)) tbl of
        None \<Rightarrow> Inr False
      | Some e \<Rightarrow>
          if nameTyped e then
            Inr (Namespace m \<notin> set ignoredList \<and> \<not> markedMutated lower (Annotations m))
          else Inl InterfaceConversion)"
    by (rule mutationRequired_find)
next
  show "createPatch lower n a tbl = createPatch lower n a (firstDecisive lower tbl n)"
    by (rule createPatch_firstDecisive)
next
  assume "namesTyped tbl"
  then show "find (decisive lower n) tbl = find (matchesName lower n) tbl"
    by (rule find_decisive_typed)
next
  fix e
  assume "find (decisive lower n) tbl = Some e \<and> nameTyped e"
  then show "matchesName lower n e"
    using find_decisive_Some [of lower n tbl e] by simp
qed


theorem first_decisive_wins_witness:
  "\<forall>lower.
     map_of (hd policyTwoMatches) ''ingressName'' = None \<and>
     ingressFound lower ([] @ hd policyTwoMatches # tl policyTwoMatches) ''test-ingress'' =
       ingressFound lower ([] @ tl policyTwoMatches) ''test-ingress'' \<and>
     defaultAnnotationsForIngressName lower ([] @ hd policyTwoMatches # tl policyTwoMatches)
         ''test-ingress'' =
       defaultAnnotationsForIngressName lower ([] @ tl policyTwoMatches) ''test-ingress'' \<and>
     find (decisive lower ''test-ingress'') policyTwoMatches = Some (policyTwoMatches ! 1) \<and>
     nameTyped (policyTwoMatches ! 1) \<and>
     matchesName lower ''test-ingress'' (policyTwoMatches ! 1) \<and>
     matchesName lower ''test-ingress'' (policyTwoMatches ! 2) \<and>
     ingressFound lower policyTwoMatches ''test-ingress'' = Inr True \<and>
     defaultAnnotationsForIngressName lower policyTwoMatches ''test-ingress'' =
       Inr [(''ingress.citrix.com/insecure-port'', String ''81'')] \<and>
     mutationRequired lower ignoredNamespaces policyTwoMatches
       (Some (exampleMeta ''test-ingress'' ''default'' None)) = Inr True \<and>
     createPatch lower ''test-ingress'' (Some Map.empty) policyTwoMatches =
       Inr (Inr [\<lparr>Op = ''add'', Path = ''/metadata/annotations'',
                 Value = Some [''ingress.citrix.com/insecure-port'' \<mapsto> ''81'']\<rparr>],
            Some [''ingress.citrix.com/insecure-port'' \<mapsto> ''81'']) \<and>
     namesTyped policyTwoMatches \<and>
     find (matchesName lower ''test-ingress'') policyTwoMatches = Some (policyTwoMatches ! 1)"
proof
  fix lower :: "string \<Rightarrow> string"
  let ?m = "exampleMeta ''test-ingress'' ''default'' None"
  let ?a = "Some (Map.empty :: string \<rightharpoonup> string)"
  let ?e = "policyTwoMatches ! 1"
  note r = first_decisive_wins [of lower "''test-ingress''" ignoredNamespaces policyTwoMatches ?m ?a]
  have e0: "map_of (hd policyTwoMatches) ''ingressName'' = None"
    by (simp add: policyTwoMatches_def)
  have t: "namesTyped policyTwoMatches"
    by (simp add: policyTwoMatches_def namesTyped_def nameTyped_def isString_def)
  have te: "nameTyped ?e"
    by (simp add: policyTwoMatches_def nameTyped_def isString_def)
  have fm: "find (matchesName lower ''test-ingress'') policyTwoMatches = Some ?e"
    by (simp add: policyTwoMatches_def matchesName_def ToLower_def lowerByte_def isASCII_def)
  have m1: "matchesName lower ''test-ingress'' ?e"
    and m2: "matchesName lower ''test-ingress'' (policyTwoMatches ! 2)"
    by (simp_all add: policyTwoMatches_def matchesName_def ToLower_def lowerByte_def
        isASCII_def eval_nat_numeral)
  from r e0
  have s1: "ingressFound lower ([] @ hd policyTwoMatches # tl policyTwoMatches) ''test-ingress'' =
       ingressFound lower ([] @ tl policyTwoMatches) ''test-ingress''"
    and s2: "defaultAnnotationsForIngressName lower
         ([] @ hd policyTwoMatches # tl policyTwoMatches) ''test-ingress'' =
       defaultAnnotationsForIngressName lower ([] @ tl policyTwoMatches) ''test-ingress''"
    by blast+
  from r t fm have fd: "find (decisive lower ''test-ingress'') policyTwoMatches = Some ?e"
    by simp
  from r have "ingressFound lower policyTwoMatches ''test-ingress'' =
     (case find (decisive lower ''test-ingress'') policyTwoMatches of
        None \<Rightarrow> Inr False
      | Some e \<Rightarrow> if nameTyped e then Inr True else Inl InterfaceConversion)"
    by blast
  with fd te have v1: "ingressFound lower policyTwoMatches ''test-ingress'' = Inr True"
    by simp
  from r have "defaultAnnotationsForIngressName lower policyTwoMatches ''test-ingress'' =
     (case find (decisive lower ''test-ingress'') policyTwoMatches of
        None \<Rightarrow> Inr []
      | Some e \<Rightarrow>
          if nameTyped e then assertMap (index e ''defaultAnnotations'')
          else Inl InterfaceConversion)"
    by blast
  with fd te have v2: "defaultAnnotationsForIngressName lower policyTwoMatches ''test-ingress'' =
       Inr [(''ingress.citrix.com/insecure-port'', String ''81'')]"
    by (simp add: policyTwoMatches_def index_def assertMap_def)
  from r have "mutationRequired lower ignoredNamespaces policyTwoMatches (Some ?m) =
     (case find (decisive lower (Name ?m)) policyTwoMatches of
        None \<Rightarrow> Inr False
      | Some e \<Rightarrow>
          if nameTyped e then
            Inr (Namespace ?m \<notin> set ignoredNamespaces \<and> \<not> markedMutated lower (Annotations ?m))
          else Inl InterfaceConversion)"
    by blast
  with fd te have v3: "mutationRequired lower ignoredNamespaces policyTwoMatches (Some ?m) = Inr True"
    by (simp add: exampleMeta_def ignoredNamespaces_def markedMutated_def)
  from r have "createPatch lower ''test-ingress'' ?a policyTwoMatches =
      createPatch lower ''test-ingress'' ?a (firstDecisive lower policyTwoMatches ''test-ingress'')"
    by blast
  with fd m1 have v4: "createPatch lower ''test-ingress'' ?a policyTwoMatches =
       Inr (Inr [\<lparr>Op = ''add'', Path = ''/metadata/annotations'',
                 Value = Some [''ingress.citrix.com/insecure-port'' \<mapsto> ''81'']\<rparr>],
            Some [''ingress.citrix.com/insecure-port'' \<mapsto> ''81''])"
    by (simp add: firstDecisive_def createPatch_unfold defaults_match)
      (simp add: policyTwoMatches_def index_def assertMap_def)
  show "map_of (hd policyTwoMatches) ''ingressName'' = None \<and>
     ingressFound lower ([] @ hd policyTwoMatches # tl policyTwoMatches) ''test-ingress'' =
       ingressFound lower ([] @ tl policyTwoMatches) ''test-ingress'' \<and>
     defaultAnnotationsForIngressName lower ([] @ hd policyTwoMatches # tl policyTwoMatches)
         ''test-ingress'' =
       defaultAnnotationsForIngressName lower ([] @ tl policyTwoMatches) ''test-ingress'' \<and>
     find (decisive lower ''test-ingress'') policyTwoMatches = Some ?e \<and>
     nameTyped ?e \<and>
     matchesName lower ''test-ingress'' ?e \<and>
     matchesName lower ''test-ingress'' (policyTwoMatches ! 2) \<and>
     ingressFound lower policyTwoMatches ''test-ingress'' = Inr True \<and>
     defaultAnnotationsForIngressName lower policyTwoMatches ''test-ingress'' =
       Inr [(''ingress.citrix.com/insecure-port'', String ''81'')] \<and>
     mutationRequired lower ignoredNamespaces policyTwoMatches (Some ?m) = Inr True \<and>
     createPatch lower ''test-ingress'' ?a policyTwoMatches =
       Inr (Inr [\<lparr>Op = ''add'', Path = ''/metadata/annotations'',
                 Value = Some [''ingress.citrix.com/insecure-port'' \<mapsto> ''81'']\<rparr>],
            Some [''ingress.citrix.com/insecure-port'' \<mapsto> ''81'']) \<and>
     namesTyped policyTwoMatches \<and>
     find (matchesName lower ''test-ingress'') policyTwoMatches = Some ?e"
    using e0 s1 s2 fd te m1 m2 v1 v2 v3 v4 t fm by (simp only: simp_thms)
qed

section \<open>A policy document that cannot be loaded\<close>

lemma mutationRequired_Nil_table: "mutationRequired lower ign [] (Some m) = Inr False"
  by (simp add: mutationRequired_find)

text \<open>
  C7, as stated, fails for a malformed document that is JSON of the wrong shape:
  \<^verbatim>\<open>json.Unmarshal\<close> returns its error after it has stored the entries that fit,
  \<^verbatim>\<open>main\<close> discards the error, the table is not empty and \<^verbatim>\<open>mutationRequired\<close> returns
  true for the Ingress of the stored entry.
\<close>

theorem load_keeps_stored_entries:
  "loadDefaultAnnotations wrongShapeOutcome (Some (wrongShapeDocument, None)) =
     examplePolicy @ [[]] \<and>
   examplePolicy @ [[]] \<noteq> [] \<and>
   (\<forall>lower.
      mutationRequired lower ignoredNamespaces
        (loadDefaultAnnotations wrongShapeOutcome (Some (wrongShapeDocument, None)))
        (Some (exampleMeta ''test-ingress'' ''default'' None)) = Inr True)"
proof -
  have l: "loadDefaultAnnotations wrongShapeOutcome (Some (wrongShapeDocument, None)) =
     examplePolicy @ [[]]"
    by (simp add: loadDefaultAnnotations_def ioutilReadAll_def jsonUnmarshal_def
        wrongShapeDocument_def wrongShapeOutcome_def)
  have "\<forall>lower. mutationRequired lower ignoredNamespaces (examplePolicy @ [[]])
        (Some (exampleMeta ''test-ingress'' ''default'' None)) = Inr True"
    by (simp add: mutationRequired_find examplePolicy_def exampleMeta_def decisive_def
        matchesName_def nameTyped_def isString_def ignoredNamespaces_def markedMutated_def)
  with l show ?thesis by (simp add: examplePolicy_def)
qed

text \<open>
  C7, amended. Loading never returns an error and never stops the program:
  \<open>loadDefaultAnnotations\<close> is a total function whose result is the table. The table is
  empty when the file could not be opened, when no byte could be read from it, and when the
  bytes read are not JSON. When the bytes are JSON of the wrong shape the error is discarded
  as well and the table is what \<^verbatim>\<open>json.Unmarshal\<close> stored, as it is for a document that
  fits. Whenever the table is empty, \<^verbatim>\<open>mutationRequired\<close> returns false on every object,
  for every list of ignored namespaces. The witness loads from a file that could not be
  opened, from a truncated document and from the document of the wrong shape.
\<close>

theorem load_discards_errors:
  "loadDefaultAnnotations outcome None = [] \<and>
   (\<forall>err. loadDefaultAnnotations outcome (Some ([], err)) = []) \<and>
   (\<forall>e. loadDefaultAnnotations (SyntaxError e) jsonFile = []) \<and>
   (\<forall>bytes err e stored. bytes \<noteq> [] \<longrightarrow>
      loadDefaultAnnotations (TypeError e stored) (Some (bytes, err)) = stored \<and>
      loadDefaultAnnotations (Decoded stored) (Some (bytes, err)) = stored) \<and>
   (loadDefaultAnnotations outcome jsonFile = [] \<longrightarrow>
      (\<forall>lower ignoredList m.
         mutationRequired lower ignoredList (loadDefaultAnnotations outcome jsonFile) (Some m) =
           Inr False))"
  by (simp add: loadDefaultAnnotations_def ioutilReadAll_def jsonUnmarshal_def
      mutationRequired_Nil_table)

theorem load_discards_errors_witness:
  "loadDefaultAnnotations wrongShapeOutcome None = [] \<and>
   (\<forall>lower.
      mutationRequired lower ignoredNamespaces (loadDefaultAnnotations wrongShapeOutcome None)
        (Some (exampleMeta ''test-ingress'' ''default'' None)) = Inr False) \<and>
   loadDefaultAnnotations (SyntaxError ''unexpected end of JSON input'') (Some (''[{'', None)) =
     [] \<and>
   (\<forall>lower.
      mutationRequired lower ignoredNamespaces
        (loadDefaultAnnotations (SyntaxError ''unexpected end of JSON input'')
           (Some (''[{'', None)))
        (Some (exampleMeta ''test-ingress'' ''default'' None)) = Inr False) \<and>
   wrongShapeDocument \<noteq> [] \<and>
   loadDefaultAnnotations wrongShapeOutcome (Some (wrongShapeDocument, None)) =
     examplePolicy @ [[]]"
proof -
  let ?syn = "SyntaxError ''unexpected end of JSON input''"
  let ?f = "Some (''[{'', None :: string option)"
  let ?m = "exampleMeta ''test-ingress'' ''default'' None"
  note r1 = load_discards_errors [of wrongShapeOutcome None]
  note r2 = load_discards_errors [of ?syn ?f]
  from r1 have a: "loadDefaultAnnotations wrongShapeOutcome None = []"
    by (rule conjunct1)
  with r1 have a': "\<forall>lower. mutationRequired lower ignoredNamespaces
      (loadDefaultAnnotations wrongShapeOutcome None) (Some ?m) = Inr False"
    by blast
  from r2 have b: "loadDefaultAnnotations ?syn ?f = []"
    by blast
  with r2 have b': "\<forall>lower. mutationRequired lower ignoredNamespaces
      (loadDefaultAnnotations ?syn ?f) (Some ?m) = Inr False"
    by blast
  have c: "wrongShapeDocument \<noteq> []"
    by (simp add: wrongShapeDocument_def)
  from r1 have "\<forall>bytes err e stored. bytes \<noteq> [] \<longrightarrow>
      loadDefaultAnnotations (TypeError e stored) (Some (bytes, err)) = stored \<and>
      loadDefaultAnnotations (Decoded stored) (Some (bytes, err)) = stored"
    by blast
  with c have d: "loadDefaultAnnotations wrongShapeOutcome (Some (wrongShapeDocument, None)) =
     examplePolicy @ [[]]"
    unfolding wrongShapeOutcome_def by blast
  show ?thesis using a a' b b' c d by (simp only: simp_thms)
qed

section \<open>Requests that cannot be decoded\<close>


text \<open>
  C8. When the body of a request (not empty, with the JSON content type) cannot be decoded,
  \<^verbatim>\<open>serve\<close> writes a review whose response is not allowed, carries the error message and
  has no patch. When the raw object of an Ingress request cannot be unmarshalled,
  \<^verbatim>\<open>mutate\<close> returns such a response. These are the only ways to a response that is not
  allowed: a response of \<^verbatim>\<open>mutate\<close>, or one written by \<^verbatim>\<open>serve\<close>, that is not allowed
  comes from one of the two errors and carries its message and no patch. Neither function
  has any state besides its arguments, so a failure touches only its own request.
\<close>




end
